theory Spec2Isabelle
  imports Complex_Main
begin

section \<open>Errors and instrumentation\<close>

text \<open>
  Python exceptions are values. \<open>ValueError\<close> carries the message of the \<open>raise\<close>
  statement; \<open>IndexError\<close> is what a Python list index out of range raises;
  \<open>EinopsError\<close> is raised by \<open>rearrange\<close> on a shape that does not match the pattern;
  \<open>RuntimeError\<close> is raised by \<open>torch.linspace\<close> on a negative number of steps;
  \<open>OverflowError\<close> is raised by \<open>math.exp\<close> when the result exceeds the range of a Python
  float.
\<close>

datatype error =
  ValueError string | IndexError | EinopsError | RuntimeError | ZeroDivisionError | OverflowError

text \<open>
  The network is an opaque collection of sub-components. To state which of them a call
  reaches, every invocation of a sub-component is recorded, in order, in a trace.
\<close>

datatype event =
    ImgIn | TimeIn | GuidanceIn | VectorIn | TxtIn | PeEmbedder
  | DoubleBlock nat | SingleBlock nat | FinalLayer

section \<open>The network and the tensor library\<close>

text \<open>
  Tensors that flow through the network are values of a type \<open>'t\<close>. Their arithmetic
  (\<open>+\<close>, \<open>-\<close>, multiplication by a Python scalar) is that of a real vector space: entries
  are exact reals, rounding is not modelled. The remaining operations of the tensor library
  that \<open>model_forward\<close> and \<open>denoise\<close> use are parameters:

  \<^item> \<open>t_ndim x\<close> is \<open>x.ndim\<close>, \<open>t_shape0 x\<close> is \<open>x.shape[0]\<close>, \<open>t_shape1 x\<close> is \<open>x.shape[1]\<close>;
  \<^item> \<open>t_full n v\<close> is \<open>torch.full((n,), v)\<close>;
  \<^item> \<open>t_cat a b\<close> is \<open>torch.cat((a, b), 1)\<close>;
  \<^item> \<open>t_from n x\<close> is the slice \<open>x[:, n:, ...]\<close>;
  \<^item> \<open>timestep_embedding t d\<close> is the function of that name imported from \<open>.layers\<close>.
\<close>

record 't torch =
  t_ndim :: "'t \<Rightarrow> nat"
  t_shape0 :: "'t \<Rightarrow> nat"
  t_shape1 :: "'t \<Rightarrow> nat"
  t_full :: "nat \<Rightarrow> real \<Rightarrow> 't"
  t_cat :: "'t \<Rightarrow> 't \<Rightarrow> 't"
  t_from :: "nat \<Rightarrow> 't \<Rightarrow> 't"
  timestep_embedding :: "'t \<Rightarrow> nat \<Rightarrow> 't"

text \<open>
  The model object: the named sub-modules that \<open>model_forward\<close> reaches, and the flag
  \<open>model.params.guidance_embed\<close>. A dual-stream block maps \<open>img txt vec pe\<close> to the new
  pair \<open>(img, txt)\<close>; a single-stream block maps \<open>img vec pe\<close> to the new \<open>img\<close>.
\<close>

record 't flux =
  img_in :: "'t \<Rightarrow> 't"
  time_in :: "'t \<Rightarrow> 't"
  guidance_embed :: bool
  guidance_in :: "'t \<Rightarrow> 't"
  vector_in :: "'t \<Rightarrow> 't"
  txt_in :: "'t \<Rightarrow> 't"
  pe_embedder :: "'t \<Rightarrow> 't"
  double_blocks :: "('t \<Rightarrow> 't \<Rightarrow> 't \<Rightarrow> 't \<Rightarrow> 't \<times> 't) list"
  single_blocks :: "('t \<Rightarrow> 't \<Rightarrow> 't \<Rightarrow> 't) list"
  final_layer :: "'t \<Rightarrow> 't \<Rightarrow> 't"

section \<open>model_forward\<close>

text \<open>
  The loop over \<open>enumerate(model.double_blocks)\<close>. \<open>k\<close> is \<open>index_block\<close>; \<open>res\<close> is
  \<open>block_controlnet_hidden_states\<close> (\<open>None\<close> when absent). The residual is read at
  \<open>index_block % 2\<close>; a Python list raises \<open>IndexError\<close> when that position does not exist.
\<close>

fun double_loop ::
  "('t::real_vector \<Rightarrow> 't \<Rightarrow> 't \<Rightarrow> 't \<Rightarrow> 't \<times> 't) list \<Rightarrow> nat \<Rightarrow> 't list option \<Rightarrow> 't \<Rightarrow> 't
     \<Rightarrow> 't \<Rightarrow> 't \<Rightarrow> event list \<Rightarrow> event list \<times> (error + 't \<times> 't)" where
  "double_loop [] k res vec pe img txt tr = (tr, Inr (img, txt))"
| "double_loop (block # blocks) k res vec pe img txt tr =
     (case block img txt vec pe of (img', txt') \<Rightarrow>
        (case res of
           None \<Rightarrow> double_loop blocks (Suc k) res vec pe img' txt' (tr @ [DoubleBlock k])
         | Some hs \<Rightarrow>
             if k mod 2 < length hs
             then double_loop blocks (Suc k) res vec pe (img' + hs ! (k mod 2)) txt'
                    (tr @ [DoubleBlock k])
             else (tr @ [DoubleBlock k], Inl IndexError)))"

text \<open>The loop over \<open>model.single_blocks\<close>, on the concatenated stream.\<close>

fun single_loop ::
  "('t \<Rightarrow> 't \<Rightarrow> 't \<Rightarrow> 't) list \<Rightarrow> nat \<Rightarrow> 't \<Rightarrow> 't \<Rightarrow> 't \<Rightarrow> event list \<Rightarrow> event list \<times> 't" where
  "single_loop [] k vec pe img tr = (tr, img)"
| "single_loop (block # blocks) k vec pe img tr =
     single_loop blocks (Suc k) vec pe (block img vec pe) (tr @ [SingleBlock k])"

definition model_forward ::
  "'t torch \<Rightarrow> ('t::real_vector) flux \<Rightarrow> 't \<Rightarrow> 't \<Rightarrow> 't \<Rightarrow> 't \<Rightarrow> 't \<Rightarrow> 't \<Rightarrow> 't list option
     \<Rightarrow> 't option \<Rightarrow> event list \<times> (error + 't)" where
  "model_forward ops model img img_ids txt txt_ids timesteps y block_controlnet_hidden_states
       guidance =
     (if t_ndim ops img \<noteq> 3 \<or> t_ndim ops txt \<noteq> 3
      then ([], Inl (ValueError ''Input img and txt tensors must have 3 dimensions.''))
      else
        let img1 = img_in model img;
            vec1 = time_in model (timestep_embedding ops timesteps 256)
        in
          if guidance_embed model \<and> guidance = None
          then ([ImgIn, TimeIn],
                Inl (ValueError ''Didn't get guidance strength for guidance distilled model.''))
          else
            let vec2 = (case guidance of
                          Some g \<Rightarrow>
                            if guidance_embed model
                            then vec1 + guidance_in model (timestep_embedding ops g 256)
                            else vec1
                        | None \<Rightarrow> vec1);
                tr2 = [ImgIn, TimeIn] @ (if guidance_embed model then [GuidanceIn] else []);
                vec3 = vec2 + vector_in model y;
                txt1 = txt_in model txt;
                ids = t_cat ops txt_ids img_ids;
                pe = pe_embedder model ids;
                tr3 = tr2 @ [VectorIn, TxtIn, PeEmbedder]
            in
              (case double_loop (double_blocks model) 0 block_controlnet_hidden_states
                      vec3 pe img1 txt1 tr3 of
                 (tr4, Inl e) \<Rightarrow> (tr4, Inl e)
               | (tr4, Inr (img2, txt2)) \<Rightarrow>
                   (case single_loop (single_blocks model) 0 vec3 pe (t_cat ops txt2 img2) tr4 of
                      (tr5, img3) \<Rightarrow>
                        (tr5 @ [FinalLayer],
                         Inr (final_layer model (t_from ops (t_shape1 ops txt2) img3) vec3)))))"

section \<open>denoise\<close>

text \<open>
  Each forward pass and each call of the ControlNet is recorded with the branch it serves:
  the conditional inputs \<open>(txt, txt_ids, vec)\<close> or the negative inputs
  \<open>(neg_txt, neg_txt_ids, neg_vec)\<close>.
\<close>

datatype branch = Conditional | Unconditional

datatype call = Forward branch | Controlnet branch

text \<open>
  The body of \<open>for t_curr, t_prev in zip(timesteps[:-1], timesteps[1:])\<close>, as a recursion
  over the zipped pairs. \<open>i\<close> is the step counter, \<open>img\<close> the latent, \<open>cl\<close> the calls made so
  far. An exception of a forward pass leaves the loop.
\<close>

fun denoise_loop ::
  "'t torch \<Rightarrow> ('t::real_vector) flux \<Rightarrow> 't \<Rightarrow> 't \<Rightarrow> 't \<Rightarrow> 't \<Rightarrow> 't \<Rightarrow> 't \<Rightarrow> 't \<Rightarrow> 't
     \<Rightarrow> real \<Rightarrow> int \<Rightarrow> (real \<times> real) list \<Rightarrow> nat \<Rightarrow> 't \<Rightarrow> call list
     \<Rightarrow> call list \<times> (error + 't)" where
  "denoise_loop ops model img_ids txt txt_ids vec neg_txt neg_txt_ids neg_vec guidance_vec
       true_gs timestep_to_start_cfg [] i img cl = (cl, Inr img)"
| "denoise_loop ops model img_ids txt txt_ids vec neg_txt neg_txt_ids neg_vec guidance_vec
       true_gs timestep_to_start_cfg ((t_curr, t_prev) # pairs) i img cl =
     (let t_vec = t_full ops (t_shape0 ops img) t_curr in
        case snd (model_forward ops model img img_ids txt txt_ids t_vec vec None
                    (Some guidance_vec)) of
          Inl e \<Rightarrow> (cl @ [Forward Conditional], Inl e)
        | Inr pred \<Rightarrow>
            if int i \<ge> timestep_to_start_cfg
            then
              (case snd (model_forward ops model img img_ids neg_txt neg_txt_ids t_vec neg_vec
                           None (Some guidance_vec)) of
                 Inl e \<Rightarrow> (cl @ [Forward Conditional, Forward Unconditional], Inl e)
               | Inr neg_pred \<Rightarrow>
                   denoise_loop ops model img_ids txt txt_ids vec neg_txt neg_txt_ids neg_vec
                     guidance_vec true_gs timestep_to_start_cfg pairs (Suc i)
                     (img + (t_prev - t_curr) *\<^sub>R (neg_pred + true_gs *\<^sub>R (pred - neg_pred)))
                     (cl @ [Forward Conditional, Forward Unconditional]))
            else
              denoise_loop ops model img_ids txt txt_ids vec neg_txt neg_txt_ids neg_vec
                guidance_vec true_gs timestep_to_start_cfg pairs (Suc i)
                (img + (t_prev - t_curr) *\<^sub>R pred)
                (cl @ [Forward Conditional]))"

text \<open>
  \<open>timesteps[:-1]\<close> is \<open>butlast\<close> and \<open>timesteps[1:]\<close> is \<open>tl\<close>; both are empty on the empty
  list, as in Python. \<open>guidance_vec\<close> is built once, from the initial latent.
\<close>

definition denoise ::
  "'t torch \<Rightarrow> ('t::real_vector) flux \<Rightarrow> 't \<Rightarrow> 't \<Rightarrow> 't \<Rightarrow> 't \<Rightarrow> 't \<Rightarrow> 't \<Rightarrow> 't \<Rightarrow> 't
     \<Rightarrow> real list \<Rightarrow> real \<Rightarrow> real \<Rightarrow> int \<Rightarrow> call list \<times> (error + 't)" where
  "denoise ops model img img_ids txt txt_ids vec neg_txt neg_txt_ids neg_vec timesteps guidance
       true_gs timestep_to_start_cfg =
     (let guidance_vec = t_full ops (t_shape0 ops img) guidance in
        denoise_loop ops model img_ids txt txt_ids vec neg_txt neg_txt_ids neg_vec guidance_vec
          true_gs timestep_to_start_cfg (zip (butlast timesteps) (tl timesteps)) 0 img [])"

section \<open>denoise_controlnet\<close>

text \<open>
  The ControlNet is an external callable: given \<open>img img_ids controlnet_cond txt txt_ids y
  timesteps guidance\<close> it returns the list of block residuals. Each residual is scaled by
  \<open>controlnet_gs\<close> before it is handed to \<open>model_forward\<close>.
\<close>

fun denoise_controlnet_loop ::
  "'t torch \<Rightarrow> ('t::real_vector) flux
     \<Rightarrow> ('t \<Rightarrow> 't \<Rightarrow> 't \<Rightarrow> 't \<Rightarrow> 't \<Rightarrow> 't \<Rightarrow> 't \<Rightarrow> 't \<Rightarrow> 't list)
     \<Rightarrow> 't \<Rightarrow> 't \<Rightarrow> 't \<Rightarrow> 't \<Rightarrow> 't \<Rightarrow> 't \<Rightarrow> 't \<Rightarrow> 't \<Rightarrow> 't
     \<Rightarrow> real \<Rightarrow> real \<Rightarrow> int \<Rightarrow> (real \<times> real) list \<Rightarrow> nat \<Rightarrow> 't \<Rightarrow> call list
     \<Rightarrow> call list \<times> (error + 't)" where
  "denoise_controlnet_loop ops model controlnet img_ids txt txt_ids vec neg_txt neg_txt_ids
       neg_vec controlnet_cond guidance_vec true_gs controlnet_gs timestep_to_start_cfg
       [] i img cl = (cl, Inr img)"
| "denoise_controlnet_loop ops model controlnet img_ids txt txt_ids vec neg_txt neg_txt_ids
       neg_vec controlnet_cond guidance_vec true_gs controlnet_gs timestep_to_start_cfg
       ((t_curr, t_prev) # pairs) i img cl =
     (let t_vec = t_full ops (t_shape0 ops img) t_curr;
          block_res_samples =
            controlnet img img_ids controlnet_cond txt txt_ids vec t_vec guidance_vec
      in
        case snd (model_forward ops model img img_ids txt txt_ids t_vec vec
                    (Some (map (\<lambda>r. controlnet_gs *\<^sub>R r) block_res_samples))
                    (Some guidance_vec)) of
          Inl e \<Rightarrow> (cl @ [Controlnet Conditional, Forward Conditional], Inl e)
        | Inr pred \<Rightarrow>
            if int i \<ge> timestep_to_start_cfg
            then
              (let neg_block_res_samples =
                     controlnet img img_ids controlnet_cond neg_txt neg_txt_ids neg_vec t_vec
                       guidance_vec
               in
                 case snd (model_forward ops model img img_ids neg_txt neg_txt_ids t_vec neg_vec
                             (Some (map (\<lambda>r. controlnet_gs *\<^sub>R r) neg_block_res_samples))
                             (Some guidance_vec)) of
                   Inl e \<Rightarrow>
                     (cl @ [Controlnet Conditional, Forward Conditional,
                            Controlnet Unconditional, Forward Unconditional], Inl e)
                 | Inr neg_pred \<Rightarrow>
                     denoise_controlnet_loop ops model controlnet img_ids txt txt_ids vec neg_txt
                       neg_txt_ids neg_vec controlnet_cond guidance_vec true_gs controlnet_gs
                       timestep_to_start_cfg pairs (Suc i)
                       (img + (t_prev - t_curr) *\<^sub>R (neg_pred + true_gs *\<^sub>R (pred - neg_pred)))
                       (cl @ [Controlnet Conditional, Forward Conditional,
                              Controlnet Unconditional, Forward Unconditional]))
            else
              denoise_controlnet_loop ops model controlnet img_ids txt txt_ids vec neg_txt
                neg_txt_ids neg_vec controlnet_cond guidance_vec true_gs controlnet_gs
                timestep_to_start_cfg pairs (Suc i)
                (img + (t_prev - t_curr) *\<^sub>R pred)
                (cl @ [Controlnet Conditional, Forward Conditional]))"

definition denoise_controlnet ::
  "'t torch \<Rightarrow> ('t::real_vector) flux
     \<Rightarrow> ('t \<Rightarrow> 't \<Rightarrow> 't \<Rightarrow> 't \<Rightarrow> 't \<Rightarrow> 't \<Rightarrow> 't \<Rightarrow> 't \<Rightarrow> 't list)
     \<Rightarrow> 't \<Rightarrow> 't \<Rightarrow> 't \<Rightarrow> 't \<Rightarrow> 't \<Rightarrow> 't \<Rightarrow> 't \<Rightarrow> 't \<Rightarrow> 't
     \<Rightarrow> real list \<Rightarrow> real \<Rightarrow> real \<Rightarrow> real \<Rightarrow> int \<Rightarrow> call list \<times> (error + 't)" where
  "denoise_controlnet ops model controlnet img img_ids txt txt_ids vec neg_txt neg_txt_ids
       neg_vec controlnet_cond timesteps guidance true_gs controlnet_gs timestep_to_start_cfg =
     (let guidance_vec = t_full ops (t_shape0 ops img) guidance in
        denoise_controlnet_loop ops model controlnet img_ids txt txt_ids vec neg_txt neg_txt_ids
          neg_vec controlnet_cond guidance_vec true_gs controlnet_gs timestep_to_start_cfg
          (zip (butlast timesteps) (tl timesteps)) 0 img [])"

section \<open>The integrator as the specification words it\<close>

text \<open>
  The specification describes the integrator as one explicit Euler step per adjacent pair
  \<open>(t_curr, t_prev)\<close> of the schedule. \<open>euler_steps\<close> follows these words: it walks the
  schedule itself, two neighbours at a time, with \<open>predict i t img\<close> the prediction used at
  step \<open>i\<close>.
\<close>

fun euler_steps ::
  "(nat \<Rightarrow> real \<Rightarrow> 't \<Rightarrow> error + 't) \<Rightarrow> real list \<Rightarrow> nat \<Rightarrow> ('t::real_vector) \<Rightarrow> error + 't" where
  "euler_steps predict (t_curr # t_prev # ts) i img =
     (case predict i t_curr img of
        Inl e \<Rightarrow> Inl e
      | Inr pred \<Rightarrow> euler_steps predict (t_prev # ts) (Suc i) (img + (t_prev - t_curr) *\<^sub>R pred))"
| "euler_steps predict [t] i img = Inr img"
| "euler_steps predict [] i img = Inr img"

text \<open>
  The prediction of step \<open>i\<close> at time \<open>t\<close>: the conditional forward pass, blended with the
  negative one by classifier-free guidance from step \<open>timestep_to_start_cfg\<close> on.
\<close>

definition guided_pred ::
  "'t torch \<Rightarrow> ('t::real_vector) flux \<Rightarrow> 't \<Rightarrow> 't \<Rightarrow> 't \<Rightarrow> 't \<Rightarrow> 't \<Rightarrow> 't \<Rightarrow> 't \<Rightarrow> 't
     \<Rightarrow> real \<Rightarrow> int \<Rightarrow> nat \<Rightarrow> real \<Rightarrow> 't \<Rightarrow> error + 't" where
  "guided_pred ops model img_ids txt txt_ids vec neg_txt neg_txt_ids neg_vec guidance_vec
       true_gs timestep_to_start_cfg i t img =
     (let t_vec = t_full ops (t_shape0 ops img) t in
        case snd (model_forward ops model img img_ids txt txt_ids t_vec vec None
                    (Some guidance_vec)) of
          Inl e \<Rightarrow> Inl e
        | Inr pred \<Rightarrow>
            if int i \<ge> timestep_to_start_cfg
            then (case snd (model_forward ops model img img_ids neg_txt neg_txt_ids t_vec
                              neg_vec None (Some guidance_vec)) of
                    Inl e \<Rightarrow> Inl e
                  | Inr neg_pred \<Rightarrow> Inr (neg_pred + true_gs *\<^sub>R (pred - neg_pred)))
            else Inr pred)"

text \<open>
  The prediction of a loop without classifier-free guidance: the conditional forward pass
  alone.
\<close>

definition plain_pred ::
  "'t torch \<Rightarrow> ('t::real_vector) flux \<Rightarrow> 't \<Rightarrow> 't \<Rightarrow> 't \<Rightarrow> 't \<Rightarrow> 't
     \<Rightarrow> nat \<Rightarrow> real \<Rightarrow> 't \<Rightarrow> error + 't" where
  "plain_pred ops model img_ids txt txt_ids vec guidance_vec i t img =
     snd (model_forward ops model img img_ids txt txt_ids (t_full ops (t_shape0 ops img) t) vec
            None (Some guidance_vec))"

text \<open>
  The dual-stream loop as the specification words it: after block \<open>k\<close> the residual at
  position \<open>k mod len(residual_set)\<close> is added to the image stream.
\<close>

fun double_loop_spec ::
  "('t::real_vector \<Rightarrow> 't \<Rightarrow> 't \<Rightarrow> 't \<Rightarrow> 't \<times> 't) list \<Rightarrow> nat \<Rightarrow> 't list \<Rightarrow> 't \<Rightarrow> 't
     \<Rightarrow> 't \<Rightarrow> 't \<Rightarrow> 't \<times> 't" where
  "double_loop_spec [] k hs vec pe img txt = (img, txt)"
| "double_loop_spec (block # blocks) k hs vec pe img txt =
     (case block img txt vec pe of (img', txt') \<Rightarrow>
        double_loop_spec blocks (Suc k) hs vec pe (img' + hs ! (k mod length hs)) txt')"

section \<open>Tensors with a layout\<close>

text \<open>
  Where the code rearranges data, a tensor is its shape together with its entries in
  row-major order. A tensor is well formed when it has as many entries as its shape says.
  \<open>tget x [i, j, k]\<close> reads the entry \<open>x[i, j, k]\<close>.
\<close>

datatype 'a tensor = Tensor (shape: "nat list") (data: "'a list")

definition wf_tensor :: "'a tensor \<Rightarrow> bool" where
  "wf_tensor x \<longleftrightarrow> length (data x) = prod_list (shape x)"

fun flat_index :: "nat list \<Rightarrow> nat list \<Rightarrow> nat \<Rightarrow> nat" where
  "flat_index (n # ns) (i # is) acc = flat_index ns is (acc * n + i)"
| "flat_index ns is acc = acc"

definition tget :: "'a tensor \<Rightarrow> nat list \<Rightarrow> 'a" where
  "tget x idx = data x ! flat_index (shape x) idx 0"

subsection \<open>Packing: the rearrangement of prepare\<close>

text \<open>
  \<open>rearrange(img, "b c (h ph) (w pw) -> b (h w) (c ph pw)", ph=2, pw=2)\<close>. The entry of the
  result at flat position \<open>k\<close>, that is at \<open>[b, i*w + j, (ch*2 + ph)*2 + pw]\<close>, is the entry
  of the argument at \<open>[b, ch, i*2 + ph, j*2 + pw]\<close>. \<open>pack_src c h w k\<close> is the flat position
  of that entry in the argument, \<open>h\<close> and \<open>w\<close> being the numbers of token rows and columns.
  The pattern does not match, and einops raises, unless the tensor has four axes and the
  last two are even.
\<close>

definition pack_src :: "nat \<Rightarrow> nat \<Rightarrow> nat \<Rightarrow> nat \<Rightarrow> nat" where
  "pack_src c h w k =
     (let f = k mod (c * 4); t = (k div (c * 4)) mod (h * w); b = (k div (c * 4)) div (h * w);
          pw = f mod 2; ph = (f div 2) mod 2; ch = (f div 2) div 2;
          j = t mod w; i = t div w
      in ((b * c + ch) * (h * 2) + (i * 2 + ph)) * (w * 2) + (j * 2 + pw))"

definition pack :: "'a tensor \<Rightarrow> error + 'a tensor" where
  "pack x =
     (case shape x of
        [b, c, hh, ww] \<Rightarrow>
          if hh mod 2 = 0 \<and> ww mod 2 = 0
          then
            (let h = hh div 2; w = ww div 2 in
               Inr (Tensor [b, h * w, c * 4]
                      (map (\<lambda>k. data x ! pack_src c h w k) [0..<b * (h * w) * (c * 4)])))
          else Inl EinopsError
      | _ \<Rightarrow> Inl EinopsError)"

subsection \<open>unpack\<close>

text \<open>\<open>math.ceil(n / 16)\<close> on a Python int.\<close>

definition ceil16 :: "int \<Rightarrow> int" where
  "ceil16 n = - ((- n) div 16)"

text \<open>
  \<open>rearrange(x, "b (h w) (c ph pw) -> b c (h ph) (w pw)", h=.., w=.., ph=2, pw=2)\<close>. The
  entry of the result at flat position \<open>k\<close>, that is at \<open>[b, ch, r, s]\<close>, is the entry of the
  argument at \<open>[b, (r div 2)*w + s div 2, (ch*2 + r mod 2)*2 + s mod 2]\<close>. einops raises
  unless the tensor has three axes, the second of length \<open>h*w\<close> and the third a multiple of
  four; a negative axis length is no shape either.
\<close>

definition unpack_src :: "nat \<Rightarrow> nat \<Rightarrow> nat \<Rightarrow> nat \<Rightarrow> nat" where
  "unpack_src c h w k =
     (let s = k mod (w * 2); r = (k div (w * 2)) mod (h * 2); q = (k div (w * 2)) div (h * 2);
          ch = q mod c; b = q div c
      in (b * (h * w) + ((r div 2) * w + s div 2)) * (c * 4) + ((ch * 2 + r mod 2) * 2 + s mod 2))"

definition unpack :: "'a tensor \<Rightarrow> int \<Rightarrow> int \<Rightarrow> error + 'a tensor" where
  "unpack x height width =
     (let h = ceil16 height; w = ceil16 width in
        if h < 0 \<or> w < 0 then Inl EinopsError
        else
          (case shape x of
             [b, t, f] \<Rightarrow>
               if t = nat h * nat w \<and> f mod 4 = 0
               then
                 (let c = f div 4 in
                    Inr (Tensor [b, c, nat h * 2, nat w * 2]
                           (map (\<lambda>k. data x ! unpack_src c (nat h) (nat w) k)
                              [0..<b * c * (nat h * 2) * (nat w * 2)])))
               else Inl EinopsError
           | _ \<Rightarrow> Inl EinopsError))"

subsection \<open>prepare\<close>

text \<open>\<open>torch.zeros(*s)\<close> and \<open>torch.arange(n)\<close>.\<close>

definition zeros :: "nat list \<Rightarrow> real tensor" where
  "zeros s = Tensor s (replicate (prod_list s) 0)"

definition arange :: "nat \<Rightarrow> real list" where
  "arange n = map real [0..<n]"

text \<open>
  \<open>ids[..., 1] = ids[..., 1] + torch.arange(h)[:, None]\<close> and
  \<open>ids[..., 2] = ids[..., 2] + torch.arange(w)[None, :]\<close> on a tensor of shape \<open>(h, w, 3)\<close>:
  the entry at flat position \<open>k\<close> is \<open>[k div 3 div w, k div 3 mod w, k mod 3]\<close>.
\<close>

definition add_rows :: "nat \<Rightarrow> nat \<Rightarrow> real tensor \<Rightarrow> real tensor" where
  "add_rows h w ids =
     Tensor (shape ids)
       (map (\<lambda>k. if k mod 3 = 1 then data ids ! k + arange h ! (k div 3 div w) else data ids ! k)
          [0..<h * w * 3])"

definition add_cols :: "nat \<Rightarrow> nat \<Rightarrow> real tensor \<Rightarrow> real tensor" where
  "add_cols h w ids =
     Tensor (shape ids)
       (map (\<lambda>k. if k mod 3 = 2 then data ids ! k + arange w ! (k div 3 mod w) else data ids ! k)
          [0..<h * w * 3])"

text \<open>
  \<open>repeat(ids, "h w c -> b (h w) c", b=bs)\<close>: merging the first two axes leaves the
  row-major order as it is, and the batch axis replicates it.
\<close>

definition repeat_hw :: "nat \<Rightarrow> 'a tensor \<Rightarrow> error + 'a tensor" where
  "repeat_hw bs x =
     (case shape x of
        [h, w, c] \<Rightarrow> Inr (Tensor [bs, h * w, c] (concat (replicate bs (data x))))
      | _ \<Rightarrow> Inl EinopsError)"

text \<open>\<open>repeat(x, "1 ... -> bs ...", bs=bs)\<close>: the first axis must have length one.\<close>

definition repeat_batch :: "nat \<Rightarrow> 'a tensor \<Rightarrow> error + 'a tensor" where
  "repeat_batch bs x =
     (case shape x of
        n # rest \<Rightarrow>
          if n = 1 then Inr (Tensor (bs # rest) (concat (replicate bs (data x))))
          else Inl EinopsError
      | [] \<Rightarrow> Inl EinopsError)"

text \<open>Lines 84 to 87 of the source: the position ids of a latent of height \<open>h\<close>, width \<open>w\<close>.\<close>

definition make_img_ids :: "nat \<Rightarrow> nat \<Rightarrow> nat \<Rightarrow> error + real tensor" where
  "make_img_ids bs h w =
     repeat_hw bs (add_cols (h div 2) (w div 2)
                     (add_rows (h div 2) (w div 2) (zeros [h div 2, w div 2, 3])))"

text \<open>\<open>x.shape[n]\<close> raises \<open>IndexError\<close> when the tensor has too few axes.\<close>

definition shape_at :: "'a tensor \<Rightarrow> nat \<Rightarrow> error + nat" where
  "shape_at x n = (if n < length (shape x) then Inr (shape x ! n) else Inl IndexError)"

definition broadcast_batch :: "nat \<Rightarrow> 'a tensor \<Rightarrow> error + 'a tensor" where
  "broadcast_batch bs x =
     (case shape_at x 0 of
        Inl e \<Rightarrow> Inl e
      | Inr n \<Rightarrow> if n = 1 \<and> bs > 1 then repeat_batch bs x else Inr x)"

record prepared =
  p_img :: "real tensor"
  p_img_ids :: "real tensor"
  p_txt :: "real tensor"
  p_txt_ids :: "real tensor"
  p_vec :: "real tensor"

text \<open>
  \<open>bs, c, h, w = img.shape\<close> raises \<open>ValueError\<close> unless the latent has four axes. The
  conversions \<open>.to(img.device, dtype=img.dtype)\<close> do not change the exact values.
\<close>

definition prepare :: "real tensor \<Rightarrow> real tensor \<Rightarrow> real tensor \<Rightarrow> error + prepared" where
  "prepare txt_t5 vec_clip img =
     (case shape img of
        [bs, c, h, w] \<Rightarrow>
          (case pack img of
             Inl e \<Rightarrow> Inl e
           | Inr img1 \<Rightarrow>
          (case broadcast_batch bs img1 of
             Inl e \<Rightarrow> Inl e
           | Inr img2 \<Rightarrow>
          (case make_img_ids bs h w of
             Inl e \<Rightarrow> Inl e
           | Inr img_ids \<Rightarrow>
          (case broadcast_batch bs txt_t5 of
             Inl e \<Rightarrow> Inl e
           | Inr txt \<Rightarrow>
          (case shape_at txt 1 of
             Inl e \<Rightarrow> Inl e
           | Inr n \<Rightarrow>
          (case broadcast_batch bs vec_clip of
             Inl e \<Rightarrow> Inl e
           | Inr vec \<Rightarrow>
               Inr \<lparr>p_img = img2, p_img_ids = img_ids, p_txt = txt,
                    p_txt_ids = zeros [bs, n, 3], p_vec = vec\<rparr>))))))
      | _ \<Rightarrow> Inl (ValueError ''values to unpack (expected 4)''))"

section \<open>The timestep schedule\<close>

text \<open>
  An entry of a float tensor is a finite value or one of the special values of IEEE 754.
  The sign of zero is not modelled: a zero divisor counts as \<open>+0\<close>.
\<close>

datatype xreal = Fin real | PInf | MInf | NaN

text \<open>
  The floating-point library is a parameter. \<open>py_exp\<close> is \<open>math.exp\<close>: it returns a Python
  float or raises \<open>OverflowError\<close>. \<open>to_dtype\<close> is the conversion of a Python float to the
  dtype of the tensor it is combined with: a finite value of that dtype, or an infinity
  when the float is out of its range. \<open>f_add\<close>, \<open>f_div\<close> and \<open>f_pow\<close> are the tensor
  library's addition, division by a non-zero value and power on finite entries, with
  whatever rounding and overflow the dtype has. Only what IEEE 754 fixes for every dtype
  is written out below: the results on the special values and the division by zero, which
  gives an infinity and raises nothing. The value \<open>mu\<close> that \<open>get_lin_function\<close> computes in
  Python floats reaches \<open>py_exp\<close> as the exact real; its rounding is part of \<open>py_exp\<close>.
\<close>

record floats =
  py_exp :: "real \<Rightarrow> error + real"
  to_dtype :: "real \<Rightarrow> xreal"
  f_add :: "real \<Rightarrow> real \<Rightarrow> xreal"
  f_div :: "real \<Rightarrow> real \<Rightarrow> xreal"
  f_pow :: "real \<Rightarrow> real \<Rightarrow> xreal"

fun xneg :: "xreal \<Rightarrow> xreal" where
  "xneg (Fin x) = Fin (- x)"
| "xneg PInf = MInf"
| "xneg MInf = PInf"
| "xneg NaN = NaN"

fun xadd :: "floats \<Rightarrow> xreal \<Rightarrow> xreal \<Rightarrow> xreal" where
  "xadd fl (Fin x) (Fin y) = f_add fl x y"
| "xadd fl NaN b = NaN"
| "xadd fl a NaN = NaN"
| "xadd fl PInf MInf = NaN"
| "xadd fl MInf PInf = NaN"
| "xadd fl PInf b = PInf"
| "xadd fl MInf b = MInf"
| "xadd fl a PInf = PInf"
| "xadd fl a MInf = MInf"

definition xsub :: "floats \<Rightarrow> xreal \<Rightarrow> xreal \<Rightarrow> xreal" where
  "xsub fl a b = xadd fl a (xneg b)"

fun xdiv :: "floats \<Rightarrow> xreal \<Rightarrow> xreal \<Rightarrow> xreal" where
  "xdiv fl (Fin x) (Fin y) =
     (if y \<noteq> 0 then f_div fl x y else if x > 0 then PInf else if x < 0 then MInf else NaN)"
| "xdiv fl NaN b = NaN"
| "xdiv fl a NaN = NaN"
| "xdiv fl (Fin x) PInf = Fin 0"
| "xdiv fl (Fin x) MInf = Fin 0"
| "xdiv fl PInf (Fin y) = (if y \<ge> 0 then PInf else MInf)"
| "xdiv fl MInf (Fin y) = (if y \<ge> 0 then MInf else PInf)"
| "xdiv fl PInf PInf = NaN"
| "xdiv fl PInf MInf = NaN"
| "xdiv fl MInf PInf = NaN"
| "xdiv fl MInf MInf = NaN"

text \<open>\<open>a ** s\<close> with a Python float exponent, after IEEE \<open>pow\<close>.\<close>

definition is_int :: "real \<Rightarrow> bool" where
  "is_int s \<longleftrightarrow> s = of_int \<lfloor>s\<rfloor>"

fun xpow :: "floats \<Rightarrow> xreal \<Rightarrow> real \<Rightarrow> xreal" where
  "xpow fl (Fin x) s =
     (if s = 0 then Fin 1
      else if x = 0 then (if s > 0 then Fin 0 else PInf)
      else f_pow fl x s)"
| "xpow fl PInf s = (if s = 0 then Fin 1 else if s > 0 then PInf else Fin 0)"
| "xpow fl MInf s =
     (if s = 0 then Fin 1
      else if s > 0 then (if is_int s \<and> odd \<lfloor>s\<rfloor> then MInf else PInf)
      else Fin 0)"
| "xpow fl NaN s = (if s = 0 then Fin 1 else NaN)"

text \<open>The comparison \<open><\<close> of floats: false as soon as one side is not a number.\<close>

fun xless :: "xreal \<Rightarrow> xreal \<Rightarrow> bool" where
  "xless (Fin x) (Fin y) = (x < y)"
| "xless MInf (Fin y) = True"
| "xless MInf PInf = True"
| "xless (Fin x) PInf = True"
| "xless a b = False"


text \<open>
  Modelled from the spec: \<open>torch.linspace\<close> belongs to the tensor library, not to this
  module. The specification has it build the given number of values, linearly spaced from
  the first bound to the second, both included; the library refuses a negative number of
  values and returns the first bound alone when asked for one value.
\<close>

definition linspace :: "real \<Rightarrow> real \<Rightarrow> int \<Rightarrow> error + xreal list" where
  "linspace a b steps =
     (if steps < 0 then Inl RuntimeError
      else if steps = 1 then Inr [Fin a]
      else Inr (map (\<lambda>i. Fin (a + (b - a) * (real i / real (nat steps - 1)))) [0..<nat steps]))"

text \<open>
  \<open>time_shift\<close>: \<open>math.exp(mu)\<close> is evaluated first and may raise; its value then meets
  the tensor, entry by entry. The integers \<open>1\<close> of \<open>1 / t - 1\<close> are exact in every dtype.
\<close>

definition time_shift :: "floats \<Rightarrow> real \<Rightarrow> real \<Rightarrow> xreal list \<Rightarrow> error + xreal list" where
  "time_shift fl mu sigma t =
     (case py_exp fl mu of
        Inl e \<Rightarrow> Inl e
      | Inr e \<Rightarrow>
          Inr (map (\<lambda>t. xdiv fl (to_dtype fl e)
                          (xadd fl (to_dtype fl e)
                             (xpow fl (xsub fl (xdiv fl (Fin 1) t) (Fin 1)) sigma)))
                 t))"

definition get_lin_function :: "real \<Rightarrow> real \<Rightarrow> real \<Rightarrow> real \<Rightarrow> error + (real \<Rightarrow> real)" where
  "get_lin_function x1 y1 x2 y2 =
     (if x2 - x1 = 0 then Inl ZeroDivisionError
      else
        (let m = (y2 - y1) / (x2 - x1); b = y1 - m * x1 in Inr (\<lambda>x. m * x + b)))"

definition get_schedule ::
  "floats \<Rightarrow> int \<Rightarrow> int \<Rightarrow> real \<Rightarrow> real \<Rightarrow> bool \<Rightarrow> error + xreal list" where
  "get_schedule fl num_steps image_seq_len base_shift max_shift shift =
     (case linspace 1 0 (num_steps + 1) of
        Inl e \<Rightarrow> Inl e
      | Inr timesteps \<Rightarrow>
          if shift
          then
            (case get_lin_function 256 base_shift 4096 max_shift of
               Inl e \<Rightarrow> Inl e
             | Inr f \<Rightarrow> time_shift fl (f (real_of_int image_seq_len)) 1 timesteps)
          else Inr timesteps)"

section \<open>Test doubles\<close>

text \<open>
  A one-entry tensor world for concrete runs: a tensor is a single real that reports three
  axes; concatenation with the text stream and the slice that removes it again leave the
  image stream as it is.
\<close>

definition stub_torch :: "real torch" where
  "stub_torch =
     \<lparr>t_ndim = (\<lambda>x. 3), t_shape0 = (\<lambda>x. 1), t_shape1 = (\<lambda>x. 0), t_full = (\<lambda>n v. v),
      t_cat = (\<lambda>a b. b), t_from = (\<lambda>n x. x), timestep_embedding = (\<lambda>t d. t)\<rparr>"

text \<open>A stub model without blocks whose forward pass returns the constant \<open>c\<close>.\<close>

definition const_model :: "real \<Rightarrow> bool \<Rightarrow> real flux" where
  "const_model c g =
     \<lparr>img_in = (\<lambda>x. x), time_in = (\<lambda>x. x), guidance_embed = g, guidance_in = (\<lambda>x. x),
      vector_in = (\<lambda>x. x), txt_in = (\<lambda>x. x), pe_embedder = (\<lambda>x. x),
      double_blocks = [], single_blocks = [], final_layer = (\<lambda>img vec. c)\<rparr>"

text \<open>
  A model of \<open>n\<close> dual-stream blocks that hand both streams on unchanged, and a final layer
  that returns the image stream: its forward pass returns the image input plus the
  residuals that were added.
\<close>

definition passing_model :: "nat \<Rightarrow> real flux" where
  "passing_model n =
     \<lparr>img_in = (\<lambda>x. x), time_in = (\<lambda>x. x), guidance_embed = False, guidance_in = (\<lambda>x. x),
      vector_in = (\<lambda>x. x), txt_in = (\<lambda>x. x), pe_embedder = (\<lambda>x. x),
      double_blocks = replicate n (\<lambda>img txt vec pe. (img, txt)), single_blocks = [],
      final_layer = (\<lambda>img vec. img)\<rparr>"

text \<open>A tensor world in which every tensor reports two axes.\<close>

definition flat_torch :: "real torch" where
  "flat_torch = stub_torch\<lparr>t_ndim := (\<lambda>x. 2)\<rparr>"

text \<open>
  A tensor world in which the tensor with the entry \<open>-1\<close> stands for a text tensor of two
  axes and every other tensor reports three.
\<close>

definition rank_torch :: "real torch" where
  "rank_torch = stub_torch\<lparr>t_ndim := (\<lambda>x. if x = - 1 then 2 else 3)\<rparr>"

text \<open>
  A float library with the two overflows of the code and no rounding, for runs whose
  outcome the overflow alone decides. \<open>math.exp\<close> raises above \<open>709.782712893384\<close>, the
  logarithm of the largest Python float; a value above \<open>3.4028235677973366e38\<close> becomes an
  infinity in a \<open>float32\<close> tensor.
\<close>

definition single_range :: "real \<Rightarrow> xreal" where
  "single_range r =
     (if r > 34028235677973366 * 10 ^ 22 then PInf
      else if r < - (34028235677973366 * 10 ^ 22) then MInf
      else Fin r)"

definition overflow_floats :: floats where
  "overflow_floats =
     \<lparr>py_exp = (\<lambda>x. if x > 709782712893384 / 10 ^ 12 then Inl OverflowError else Inr (exp x)),
      to_dtype = single_range,
      f_add = (\<lambda>x y. single_range (x + y)),
      f_div = (\<lambda>x y. single_range (x / y)),
      f_pow = (\<lambda>x s. if x > 0 then single_range (x powr s)
                       else if is_int s
                       then single_range ((if odd \<lfloor>s\<rfloor> then - 1 else 1) * (\<bar>x\<bar> powr s))
                       else NaN)\<rparr>"

section \<open>Schedules too short for a step\<close>

text \<open>
  Claim C10. When the list of timesteps has length 0 or 1, there is no adjacent pair: the
  loop body of \<open>denoise\<close> and of \<open>denoise_controlnet\<close> never runs, the initial latent is
  returned unchanged, and neither the model nor the ControlNet is invoked.
\<close>

theorem denoise_short_schedule:
  "length timesteps \<le> 1 \<Longrightarrow>
     denoise ops model img img_ids txt txt_ids vec neg_txt neg_txt_ids neg_vec timesteps
       guidance true_gs timestep_to_start_cfg = ([], Inr img)
   \<and> denoise_controlnet ops model controlnet img img_ids txt txt_ids vec neg_txt neg_txt_ids
       neg_vec controlnet_cond timesteps guidance true_gs controlnet_gs timestep_to_start_cfg
       = ([], Inr img)"
  by (cases timesteps) (simp_all add: denoise_def denoise_controlnet_def)

theorem denoise_short_schedule_witness:
  "length [1 :: real] \<le> 1
   \<and> denoise stub_torch (const_model 1 False) 5 0 0 0 0 0 0 0 [1] 4 1 0 = ([], Inr 5)
   \<and> denoise_controlnet stub_torch (const_model 1 False) (\<lambda>a b c d e f g h. [1, 2])
        5 0 0 0 0 0 0 0 0 [1] 4 1 0.7 0 = ([], Inr 5)"
proof -
  have short: "length [1 :: real] \<le> 1"
    by simp
  from denoise_short_schedule [OF short] show ?thesis
    by simp
qed

section \<open>The integrator takes one Euler step per adjacent pair\<close>

lemma zip_adjacent:
  "zip (butlast (a # b # ts)) (tl (a # b # ts)) = (a, b) # zip (butlast (b # ts)) (tl (b # ts))"
  by simp

lemma denoise_loop_euler:
  "snd (denoise_loop ops model img_ids txt txt_ids vec neg_txt neg_txt_ids neg_vec gv true_gs
          start (zip (butlast ts) (tl ts)) i img cl)
   = euler_steps (guided_pred ops model img_ids txt txt_ids vec neg_txt neg_txt_ids neg_vec gv
        true_gs start) ts i img"
proof (induction ts arbitrary: i img cl rule: induct_list012)
  case 1
  then show ?case by simp
next
  case (2 x)
  then show ?case by simp
next
  case (3 a b ts)
  show ?case
    unfolding zip_adjacent
    by (simp add: guided_pred_def Let_def 3 split: sum.splits del: butlast.simps list.sel)
qed

lemma denoise_euler_eq:
  "snd (denoise ops model img img_ids txt txt_ids vec neg_txt neg_txt_ids neg_vec timesteps
          guidance true_gs start)
   = euler_steps (guided_pred ops model img_ids txt txt_ids vec neg_txt neg_txt_ids neg_vec
        (t_full ops (t_shape0 ops img) guidance) true_gs start) timesteps 0 img"
  by (simp add: denoise_def denoise_loop_euler)

lemma stub_steps:
  assumes "\<And>x ids t tids ts y g.
             snd (model_forward ops model x ids t tids ts y None g) = Inr ones"
  shows "guided_pred ops model img_ids txt txt_ids vec neg_txt neg_txt_ids neg_vec gv true_gs
           start i t img = Inr ones"
  by (simp add: guided_pred_def assms Let_def)

lemma euler_two_steps:
  assumes "\<And>i t x. predict i t x = Inr ones"
  shows "euler_steps predict [1, 0.5, 0] 0 img = Inr (img - ones)"
proof -
  have "img + (0.5 - 1) *\<^sub>R ones + (0 - 0.5) *\<^sub>R ones = img - ones"
    by (simp add: algebra_simps flip: scaleR_add_left)
  then show ?thesis by (simp add: assms)
qed

lemma const_model_forward:
  "snd (model_forward stub_torch (const_model c False) x ids t tids ts y None g) = Inr c"
  by (simp add: model_forward_def stub_torch_def const_model_def)

text \<open>
  Claim C1. For every starting latent and every schedule, the result of \<open>denoise\<close> is the
  result of taking, for each adjacent pair \<open>(t_curr, t_prev)\<close> of the schedule in order, the
  explicit Euler step \<open>img = img + (t_prev - t_curr) * pred\<close>, where \<open>pred\<close> is the
  prediction of the model at \<open>t_curr\<close>, blended by classifier-free guidance when it is
  active. In particular, when every forward pass of the model returns the constant tensor
  \<open>ones\<close>, the schedule \<open>[1.0, 0.5, 0.0]\<close> takes the latent \<open>img\<close> to \<open>img - ones\<close>, that is
  to \<open>img - 1.0\<close>.
\<close>

theorem denoise_explicit_euler:
  fixes img ones :: "'t::real_vector"
  shows
  "snd (denoise ops model img img_ids txt txt_ids vec neg_txt neg_txt_ids neg_vec timesteps
          guidance true_gs start)
     = euler_steps (guided_pred ops model img_ids txt txt_ids vec neg_txt neg_txt_ids neg_vec
         (t_full ops (t_shape0 ops img) guidance) true_gs start) timesteps 0 img
   \<and> ((\<forall>x ids t tids ts y g.
          snd (model_forward ops model x ids t tids ts y None g) = Inr ones) \<longrightarrow>
        snd (denoise ops model img img_ids txt txt_ids vec neg_txt neg_txt_ids neg_vec
               [1, 0.5, 0] guidance true_gs start) = Inr (img - ones))"
proof (intro conjI impI)
  show "snd (denoise ops model img img_ids txt txt_ids vec neg_txt neg_txt_ids neg_vec timesteps
          guidance true_gs start)
     = euler_steps (guided_pred ops model img_ids txt txt_ids vec neg_txt neg_txt_ids neg_vec
         (t_full ops (t_shape0 ops img) guidance) true_gs start) timesteps 0 img"
    by (rule denoise_euler_eq)
next
  assume "\<forall>x ids t tids ts y g.
            snd (model_forward ops model x ids t tids ts y None g) = Inr ones"
  then have "\<And>i t x. guided_pred ops model img_ids txt txt_ids vec neg_txt neg_txt_ids neg_vec
        (t_full ops (t_shape0 ops img) guidance) true_gs start i t x = Inr ones"
    by (simp add: stub_steps)
  then show "snd (denoise ops model img img_ids txt txt_ids vec neg_txt neg_txt_ids neg_vec
               [1, 0.5, 0] guidance true_gs start) = Inr (img - ones)"
    unfolding denoise_euler_eq by (rule euler_two_steps)
qed

theorem denoise_explicit_euler_witness:
  "(\<forall>x ids t tids ts y g.
      snd (model_forward stub_torch (const_model 1 False) x ids t tids ts y None g) = Inr 1)
   \<and> snd (denoise stub_torch (const_model 1 False) 5 0 0 0 0 0 0 0 [1, 0.5, 0] 4 1 0) = Inr 4"
proof -
  have stub: "\<forall>x ids t tids ts y g.
      snd (model_forward stub_torch (const_model 1 False) x ids t tids ts y None g) = Inr 1"
    by (simp add: const_model_forward)
  from denoise_explicit_euler
         [of stub_torch "const_model 1 False" 5 0 0 0 0 0 0 0 "[]" 4 1 0 1] stub
  show ?thesis by simp
qed

section \<open>Facts about model_forward\<close>

lemma double_loop_None:
  "\<exists>tr' r. double_loop blocks k None vec pe img txt tr = (tr', Inr r)"
  by (induction blocks arbitrary: k img "txt" tr) (auto split: prod.splits)

lemma double_loop_error:
  "double_loop blocks k res vec pe img txt tr = (tr', Inl e) \<Longrightarrow> e = IndexError"
  by (induction blocks arbitrary: k img "txt" tr)
     (auto split: prod.splits option.splits if_splits)

lemma double_loop_trace:
  "\<exists>m \<le> length blocks. fst (double_loop blocks k res vec pe img txt tr) = tr @ map DoubleBlock [k..<k + m]"
proof (induction blocks arbitrary: k img "txt" tr)
  case Nil
  then show ?case by simp
next
  case (Cons block blocks)
  obtain img' txt' where b: "block img txt vec pe = (img', txt')" by (cases "block img txt vec pe")
  show ?case
  proof (cases "\<exists>hs. res = Some hs \<and> \<not> k mod 2 < length hs")
    case True
    then have "fst (double_loop (block # blocks) k res vec pe img txt tr) = tr @ map DoubleBlock [k..<k + 1]"
      using b by auto
    then show ?thesis by (intro exI[of _ 1]) simp
  next
    case False
    then obtain img2 where "double_loop (block # blocks) k res vec pe img txt tr
        = double_loop blocks (Suc k) res vec pe img2 txt' (tr @ [DoubleBlock k])"
      using b by (cases res) auto
    moreover obtain m where "m \<le> length blocks"
      "fst (double_loop blocks (Suc k) res vec pe img2 txt' (tr @ [DoubleBlock k])) = (tr @ [DoubleBlock k]) @ map DoubleBlock [Suc k..<Suc k + m]"
      using Cons.IH by blast
    ultimately have "fst (double_loop (block # blocks) k res vec pe img txt tr) = tr @ map DoubleBlock [k..<k + Suc m]" "Suc m \<le> length (block # blocks)"
      by (simp_all add: upt_conv_Cons)
    then show ?thesis by blast
  qed
qed

lemma upt_step: "[k..<Suc (k + n)] = k # [Suc k..<Suc (k + n)]"
  by (simp add: upt_conv_Cons)

lemma single_loop_trace:
  "fst (single_loop blocks k vec pe img tr) = tr @ map SingleBlock [k..<k + length blocks]"
  by (induction blocks arbitrary: k img tr) (simp_all add: upt_step del: upt_Suc)

lemma double_loop_traceD:
  "double_loop blocks k res vec pe img txt tr = (tr', r) \<Longrightarrow> \<exists>m. tr' = tr @ map DoubleBlock [k..<k + m]"
  using double_loop_trace[of blocks k res vec pe img "txt" tr] by auto

lemma single_loop_traceD:
  "single_loop blocks k vec pe img tr = (tr', r) \<Longrightarrow> tr' = tr @ map SingleBlock [k..<k + length blocks]"
  using single_loop_trace[of blocks k vec pe img tr] by auto

lemma model_forward_None_error:
  "snd (model_forward ops model img ids txt tids ts y None (Some g)) = Inl e \<longleftrightarrow>
     (t_ndim ops img \<noteq> 3 \<or> t_ndim ops txt \<noteq> 3) \<and> e = ValueError ''Input img and txt tensors must have 3 dimensions.''"
proof -
  obtain tr' r where "double_loop (double_blocks model) 0 None
     ((if guidance_embed model then time_in model (timestep_embedding ops ts 256) + guidance_in model (timestep_embedding ops g 256) else time_in model (timestep_embedding ops ts 256)) + vector_in model y)
     (pe_embedder model (t_cat ops tids ids)) (img_in model img) (txt_in model txt)
     (([ImgIn, TimeIn] @ (if guidance_embed model then [GuidanceIn] else [])) @ [VectorIn, TxtIn, PeEmbedder]) = (tr', Inr r)"
    using double_loop_None by blast
  then show ?thesis
    by (auto simp: model_forward_def Let_def split: prod.splits sum.splits)
qed

lemma model_forward_value_error:
  "(\<exists>m. snd (model_forward ops model img ids txt tids ts y res guidance) = Inl (ValueError m)) \<longleftrightarrow>
     (t_ndim ops img \<noteq> 3 \<or> t_ndim ops txt \<noteq> 3 \<or> (guidance_embed model \<and> guidance = None))"
  by (auto simp: model_forward_def Let_def split: prod.splits sum.splits dest: double_loop_error)

lemma model_forward_distinct:
  "distinct (fst (model_forward ops model img ids txt tids ts y res guidance))"
  by (auto simp: model_forward_def Let_def distinct_map inj_on_def split: prod.splits sum.splits
      dest!: double_loop_traceD single_loop_traceD)

section \<open>Classifier-free guidance switched off\<close>

lemma euler_steps_plain_when_late:
  "int i + int (length ts) - 1 \<le> start \<Longrightarrow>
   euler_steps (guided_pred ops model img_ids txt txt_ids vec neg_txt neg_txt_ids neg_vec gv true_gs start) ts i img
   = euler_steps (plain_pred ops model img_ids txt txt_ids vec gv) ts i img"
proof (induction ts arbitrary: i img rule: induct_list012)
  case (3 t_curr t_prev ts)
  have "\<not> start \<le> int i" using 3(3) by simp
  then have p: "guided_pred ops model img_ids txt txt_ids vec neg_txt neg_txt_ids neg_vec gv true_gs start i t_curr img
        = plain_pred ops model img_ids txt txt_ids vec gv i t_curr img"
    by (simp add: guided_pred_def plain_pred_def Let_def split: sum.splits)
  have ih: "euler_steps (guided_pred ops model img_ids txt txt_ids vec neg_txt neg_txt_ids neg_vec gv true_gs start) (t_prev # ts) (Suc i) x
   = euler_steps (plain_pred ops model img_ids txt txt_ids vec gv) (t_prev # ts) (Suc i) x" for x
    using 3(3) by (intro 3(2)) simp
  show ?case by (simp add: p ih split: sum.splits)
qed simp_all

lemma no_unconditional_when_late:
  "int i + int (length pairs) \<le> start \<Longrightarrow> Forward Unconditional \<notin> set cl \<Longrightarrow>
   Forward Unconditional \<notin> set (fst (denoise_loop ops model img_ids txt txt_ids vec neg_txt neg_txt_ids neg_vec gv true_gs start pairs i img cl))"
proof (induction pairs arbitrary: i img cl)
  case Nil
  then show ?case by simp
next
  case (Cons p pairs)
  obtain t_curr t_prev where p: "p = (t_curr, t_prev)" by (cases p)
  have late: "\<not> start \<le> int i" using Cons.prems by simp
  have next_ok: "int (Suc i) + int (length pairs) \<le> start" using Cons.prems by simp
  have cl_ok: "Forward Unconditional \<notin> set (cl @ [Forward Conditional])" using Cons.prems by simp
  show ?case
  proof (cases "snd (model_forward ops model img img_ids txt txt_ids (t_full ops (t_shape0 ops img) t_curr) vec None (Some gv))")
    case (Inl e)
    then show ?thesis using cl_ok by (simp add: p Let_def)
  next
    case (Inr pred)
    then show ?thesis using late Cons.IH[OF next_ok cl_ok] by (simp add: p Let_def)
  qed
qed

lemma denoise_no_unconditional:
  assumes late: "int (length timesteps) - 1 \<le> start"
  shows "Forward Unconditional \<notin> set (fst (denoise ops model img img_ids txt txt_ids vec neg_txt
        neg_txt_ids neg_vec timesteps guidance true_gs start))"
proof (cases timesteps)
  case Nil
  then show ?thesis by (simp add: denoise_def)
next
  case (Cons t ts)
  have "length (zip (butlast timesteps) (tl timesteps)) = length timesteps - 1"
    by simp
  then have "int 0 + int (length (zip (butlast timesteps) (tl timesteps))) \<le> start"
    using late Cons by simp
  moreover have "Forward Unconditional \<notin> set []"
    by simp
  ultimately have "Forward Unconditional \<notin> set (fst (denoise_loop ops model img_ids txt txt_ids vec
      neg_txt neg_txt_ids neg_vec (t_full ops (t_shape0 ops img) guidance) true_gs start
      (zip (butlast timesteps) (tl timesteps)) 0 img []))"
    by (rule no_unconditional_when_late)
  then show ?thesis unfolding denoise_def Let_def .
qed

lemma denoise_plain_when_late:
  assumes late: "int (length timesteps) - 1 \<le> start"
  shows "snd (denoise ops model img img_ids txt txt_ids vec neg_txt neg_txt_ids neg_vec timesteps
               guidance true_gs start)
          = euler_steps (plain_pred ops model img_ids txt txt_ids vec
               (t_full ops (t_shape0 ops img) guidance)) timesteps 0 img"
proof -
  have "int 0 + int (length timesteps) - 1 \<le> start"
    using late by simp
  then have "euler_steps (guided_pred ops model img_ids txt txt_ids vec neg_txt neg_txt_ids neg_vec
        (t_full ops (t_shape0 ops img) guidance) true_gs start) timesteps 0 img
     = euler_steps (plain_pred ops model img_ids txt txt_ids vec
               (t_full ops (t_shape0 ops img) guidance)) timesteps 0 img"
    by (rule euler_steps_plain_when_late)
  then show ?thesis
    by (simp only: denoise_euler_eq)
qed

lemma plain_two_steps:
  "euler_steps (plain_pred stub_torch (const_model 1 False) 0 0 0 0 gv) [1, 0.5, 0] 0 5 = Inr 4"
proof -
  have "\<And>i t x. plain_pred stub_torch (const_model 1 False) 0 0 0 0 gv i t x = Inr 1"
    by (simp add: plain_pred_def const_model_forward)
  then have "euler_steps (plain_pred stub_torch (const_model 1 False) 0 0 0 0 gv) [1, 0.5, 0] 0 5
               = Inr (5 - 1)"
    by (rule euler_two_steps)
  then show ?thesis by simp
qed

lemma rank_torch_conditional:
  "snd (model_forward rank_torch (const_model 1 False) 5 0 0 0 t 0 None (Some g)) = Inr 1"
  by (simp add: model_forward_def rank_torch_def stub_torch_def const_model_def)

lemma rank_torch_negative:
  "snd (model_forward rank_torch (const_model 1 False) 5 0 (- 1) 0 t 0 None (Some g))
     = Inl (ValueError ''Input img and txt tensors must have 3 dimensions.'')"
  by (simp add: model_forward_def rank_torch_def stub_torch_def)

text \<open>
  With \<open>true_gs = 1\<close> and classifier-free guidance active from step \<open>0\<close>, \<open>denoise\<close> is
  not the loop that omits the blend. On a negative text
  tensor of two axes the negative forward pass is run and raises the validation error,
  where the loop without the blend takes its step and returns \<open>5 + (0 - 1) * 1 = 4\<close>.
\<close>

theorem denoise_without_cfg_counterexample:
  "denoise rank_torch (const_model 1 False) 5 0 0 0 0 (- 1) 0 0 [1, 0] 4 1 0
     = ([Forward Conditional, Forward Unconditional],
        Inl (ValueError ''Input img and txt tensors must have 3 dimensions.''))
   \<and> euler_steps (plain_pred rank_torch (const_model 1 False) 0 0 0 0
        (t_full rank_torch (t_shape0 rank_torch 5) 4)) [1, 0] 0 5 = Inr 4"
proof -
  have a: "denoise rank_torch (const_model 1 False) 5 0 0 0 0 (- 1) 0 0 [1, 0] 4 1 0
     = ([Forward Conditional, Forward Unconditional],
        Inl (ValueError ''Input img and txt tensors must have 3 dimensions.''))"
    unfolding denoise_def Let_def
    by (simp add: rank_torch_conditional rank_torch_negative)
  have b: "euler_steps (plain_pred rank_torch (const_model 1 False) 0 0 0 0
        (t_full rank_torch (t_shape0 rank_torch 5) 4)) [1, 0] 0 5 = Inr 4"
    by (simp add: plain_pred_def rank_torch_conditional)
  from a b show ?thesis by (rule conjI)
qed

text \<open>
  Claim C3, as amended. When \<open>timestep_to_start_cfg\<close> is at least the number of
  integration steps, \<open>denoise\<close> never runs the forward pass on the negative inputs, and its
  outcome, value or exception, is that of the loop that omits the blend
  \<open>pred = neg_pred + true_gs * (pred - neg_pred)\<close>, for \<open>true_gs = 1\<close> and for every other
  \<open>true_gs\<close>: the blend is never evaluated. Nothing is claimed for \<open>true_gs = 1\<close> with a
  start inside the schedule, where the code does evaluate the blend, in the arithmetic of
  the tensors, and does run the negative forward pass.
\<close>

theorem denoise_without_cfg:
  fixes img :: "'t::real_vector"
  assumes "int (length timesteps) - 1 \<le> start"
  shows "Forward Unconditional \<notin> set (fst (denoise ops model img img_ids txt txt_ids vec neg_txt
           neg_txt_ids neg_vec timesteps guidance true_gs start))
       \<and> snd (denoise ops model img img_ids txt txt_ids vec neg_txt neg_txt_ids neg_vec timesteps
               guidance true_gs start)
          = euler_steps (plain_pred ops model img_ids txt txt_ids vec
               (t_full ops (t_shape0 ops img) guidance)) timesteps 0 img"
  using assms by (intro conjI denoise_no_unconditional denoise_plain_when_late)

theorem denoise_without_cfg_witness:
  "int (length [1, 0.5, 0 :: real]) - 1 \<le> 5
   \<and> Forward Unconditional \<notin> set (fst (denoise stub_torch (const_model 1 False) 5 0 0 0 0 0 0 0
         [1, 0.5, 0] 4 1 5))
   \<and> snd (denoise stub_torch (const_model 1 False) 5 0 0 0 0 0 0 0 [1, 0.5, 0] 4 1 5) = Inr 4"
proof -
  have late: "int (length [1, 0.5, 0 :: real]) - 1 \<le> 5"
    by simp
  note inst = denoise_without_cfg
         [OF late, of stub_torch "const_model 1 False" 5 0 0 0 0 0 0 0 4 1]
  from inst have
    a: "Forward Unconditional \<notin> set (fst (denoise stub_torch (const_model 1 False) 5 0 0 0 0 0 0 0
         [1, 0.5, 0] 4 1 5))"
    by (rule conjunct1)
  from inst have
    "snd (denoise stub_torch (const_model 1 False) 5 0 0 0 0 0 0 0 [1, 0.5, 0] 4 1 5)
       = euler_steps (plain_pred stub_torch (const_model 1 False) 0 0 0 0
           (t_full stub_torch (t_shape0 stub_torch 5) 4)) [1, 0.5, 0] 0 5"
    by (rule conjunct2)
  then have b: "snd (denoise stub_torch (const_model 1 False) 5 0 0 0 0 0 0 0 [1, 0.5, 0] 4 1 5)
       = Inr 4"
    by (simp only: plain_two_steps)
  from late a b show ?thesis by blast
qed

section \<open>Validation errors of model_forward\<close>

lemma guidance_error_run:
  "model_forward stub_torch (const_model 1 True) 0 0 0 0 0 0 None None
     = ([ImgIn, TimeIn],
        Inl (ValueError ''Didn't get guidance strength for guidance distilled model.''))"
  by (simp add: model_forward_def stub_torch_def const_model_def)

text \<open>
  The error for a missing guidance tensor is not raised before every sub-component: the
  code has already run \<open>img_in\<close> and \<open>time_in\<close>, and its message is not
  "guidance strength required". Here the model declares guidance embedding, both tensors
  have three axes and no guidance is passed.
\<close>

theorem guidance_error_counterexample:
  "fst (model_forward stub_torch (const_model 1 True) 0 0 0 0 0 0 None None) = [ImgIn, TimeIn]
   \<and> snd (model_forward stub_torch (const_model 1 True) 0 0 0 0 0 0 None None)
       = Inl (ValueError ''Didn't get guidance strength for guidance distilled model.'')
   \<and> fst (model_forward stub_torch (const_model 1 True) 0 0 0 0 0 0 None None) \<noteq> []
   \<and> snd (model_forward stub_torch (const_model 1 True) 0 0 0 0 0 0 None None)
       \<noteq> Inl (ValueError ''guidance strength required'')"
  by (simp add: guidance_error_run)

lemma model_forward_rank_error:
  "t_ndim ops img \<noteq> 3 \<or> t_ndim ops txt \<noteq> 3 \<Longrightarrow>
   model_forward ops model img ids txt tids ts y res guidance
     = ([], Inl (ValueError ''Input img and txt tensors must have 3 dimensions.''))"
  by (simp add: model_forward_def)

lemma model_forward_guidance_error:
  "t_ndim ops img = 3 \<Longrightarrow> t_ndim ops txt = 3 \<Longrightarrow> guidance_embed model \<Longrightarrow> guidance = None \<Longrightarrow>
   model_forward ops model img ids txt tids ts y res guidance
     = ([ImgIn, TimeIn],
        Inl (ValueError ''Didn't get guidance strength for guidance distilled model.''))"
  by (simp add: model_forward_def)

text \<open>
  Claim C7, as amended. \<open>model_forward\<close> raises a \<open>ValueError\<close> if and only if \<open>img\<close> or
  \<open>txt\<close> does not have exactly three axes, or the model declares guidance embedding and the
  guidance tensor is \<open>None\<close>. The rank error is raised before any sub-component is invoked,
  with the message "Input img and txt tensors must have 3 dimensions."; the guidance error
  is raised once \<open>img_in\<close> and \<open>time_in\<close> have been invoked and nothing else, with the
  message "Didn't get guidance strength for guidance distilled model.". No sub-component is
  invoked twice: nothing is retried.
\<close>

theorem model_forward_validation:
  "((\<exists>m. snd (model_forward ops model img ids txt tids ts y res guidance) = Inl (ValueError m))
      \<longleftrightarrow> (t_ndim ops img \<noteq> 3 \<or> t_ndim ops txt \<noteq> 3
           \<or> (guidance_embed model \<and> guidance = None)))
   \<and> (t_ndim ops img \<noteq> 3 \<or> t_ndim ops txt \<noteq> 3 \<longrightarrow>
        model_forward ops model img ids txt tids ts y res guidance
          = ([], Inl (ValueError ''Input img and txt tensors must have 3 dimensions.'')))
   \<and> (t_ndim ops img = 3 \<and> t_ndim ops txt = 3 \<and> guidance_embed model \<and> guidance = None \<longrightarrow>
        model_forward ops model img ids txt tids ts y res guidance
          = ([ImgIn, TimeIn],
             Inl (ValueError ''Didn't get guidance strength for guidance distilled model.'')))
   \<and> distinct (fst (model_forward ops model img ids txt tids ts y res guidance))"
proof (intro conjI impI)
  show "(\<exists>m. snd (model_forward ops model img ids txt tids ts y res guidance) = Inl (ValueError m))
      \<longleftrightarrow> (t_ndim ops img \<noteq> 3 \<or> t_ndim ops txt \<noteq> 3
           \<or> (guidance_embed model \<and> guidance = None))"
    by (rule model_forward_value_error)
next
  assume "t_ndim ops img \<noteq> 3 \<or> t_ndim ops txt \<noteq> 3"
  then show "model_forward ops model img ids txt tids ts y res guidance
          = ([], Inl (ValueError ''Input img and txt tensors must have 3 dimensions.''))"
    by (rule model_forward_rank_error)
next
  assume "t_ndim ops img = 3 \<and> t_ndim ops txt = 3 \<and> guidance_embed model \<and> guidance = None"
  then show "model_forward ops model img ids txt tids ts y res guidance
          = ([ImgIn, TimeIn],
             Inl (ValueError ''Didn't get guidance strength for guidance distilled model.''))"
    by (intro model_forward_guidance_error) simp_all
next
  show "distinct (fst (model_forward ops model img ids txt tids ts y res guidance))"
    by (rule model_forward_distinct)
qed

theorem model_forward_validation_witness:
  "t_ndim flat_torch (0 :: real) \<noteq> 3
   \<and> model_forward flat_torch (const_model 1 False) 0 0 0 0 0 0 None (Some 4)
       = ([], Inl (ValueError ''Input img and txt tensors must have 3 dimensions.''))
   \<and> t_ndim stub_torch (0 :: real) = 3 \<and> guidance_embed (const_model 1 True)
   \<and> (\<exists>m. snd (model_forward stub_torch (const_model 1 True) 0 0 0 0 0 0 None None)
            = Inl (ValueError m))
   \<and> model_forward stub_torch (const_model 1 True) 0 0 0 0 0 0 None None
       = ([ImgIn, TimeIn],
          Inl (ValueError ''Didn't get guidance strength for guidance distilled model.''))"
proof -
  have flat: "t_ndim flat_torch (0 :: real) \<noteq> 3"
    by (simp add: flat_torch_def stub_torch_def)
  have rank: "t_ndim stub_torch (0 :: real) = 3"
    by (simp add: stub_torch_def)
  have embed: "guidance_embed (const_model 1 True)"
    by (simp add: const_model_def)
  note a = model_forward_validation
             [of flat_torch "const_model 1 False" 0 0 0 0 0 0 None "Some 4"]
  note b = model_forward_validation
             [of stub_torch "const_model 1 True" 0 0 0 0 0 0 None None]
  from a flat have 1: "model_forward flat_torch (const_model 1 False) 0 0 0 0 0 0 None (Some 4)
       = ([], Inl (ValueError ''Input img and txt tensors must have 3 dimensions.''))"
    by blast
  from b rank embed have 2: "\<exists>m. snd (model_forward stub_torch (const_model 1 True) 0 0 0 0 0 0 None None)
            = Inl (ValueError m)"
    by blast
  from b rank embed have 3: "model_forward stub_torch (const_model 1 True) 0 0 0 0 0 0 None None
       = ([ImgIn, TimeIn],
          Inl (ValueError ''Didn't get guidance strength for guidance distilled model.''))"
    by blast
  from flat rank embed 1 2 3 show ?thesis by blast
qed

section \<open>The residual added after a dual-stream block\<close>

lemma replicate_three: "replicate 3 x = [x, x, x]"
  by (simp add: numeral_3_eq_3)

lemma passing_three_blocks:
  "double_blocks (passing_model 3)
     = [\<lambda>img txt vec pe. (img, txt), \<lambda>img txt vec pe. (img, txt), \<lambda>img txt vec pe. (img, txt)]"
  by (simp add: passing_model_def replicate_three)

lemma double_loop_two:
  assumes "2 \<le> length hs"
  shows "double_loop blocks k (Some hs) vec pe img txt tr
           = (tr @ map DoubleBlock [k..<k + length blocks],
              Inr (double_loop_spec blocks k (take 2 hs) vec pe img txt))"
proof (induction blocks arbitrary: k img "txt" tr)
  case Nil
  then show ?case by simp
next
  case (Cons block blocks)
  obtain img' txt' where b: "block img txt vec pe = (img', txt')"
    by (cases "block img txt vec pe")
  have lt: "k mod 2 < length hs" using assms by (simp add: less_le_trans [of "k mod 2" 2])
  have len: "length (take 2 hs) = 2" using assms by simp
  have "take 2 hs ! (k mod 2) = hs ! (k mod 2)" by (rule nth_take) simp
  then have nth: "take 2 hs ! (k mod length (take 2 hs)) = hs ! (k mod 2)"
    by (simp only: len)
  have tr: "(tr @ [DoubleBlock k]) @ map DoubleBlock [Suc k..<Suc k + length blocks]
              = tr @ map DoubleBlock [k..<k + length (block # blocks)]"
    by (simp add: upt_step del: upt_Suc)
  have "double_loop (block # blocks) k (Some hs) vec pe img txt tr
          = double_loop blocks (Suc k) (Some hs) vec pe (img' + hs ! (k mod 2)) txt'
              (tr @ [DoubleBlock k])"
    using b lt by simp
  also have "\<dots> = ((tr @ [DoubleBlock k]) @ map DoubleBlock [Suc k..<Suc k + length blocks],
                    Inr (double_loop_spec blocks (Suc k) (take 2 hs) vec pe
                           (img' + hs ! (k mod 2)) txt'))"
    by (rule Cons.IH)
  also have "double_loop_spec blocks (Suc k) (take 2 hs) vec pe (img' + hs ! (k mod 2)) txt'
               = double_loop_spec (block # blocks) k (take 2 hs) vec pe img txt"
    using b nth by simp
  finally show ?case by (simp only: tr)
qed

lemma double_loop_short:
  assumes "length hs < 2" "2 \<le> length blocks"
  shows "snd (double_loop blocks 0 (Some hs) vec pe img txt tr) = Inl IndexError"
proof -
  obtain b1 b2 rest where blocks: "blocks = b1 # b2 # rest"
    using assms(2) by (cases blocks; cases "tl blocks") auto
  show ?thesis
  proof (cases hs)
    case Nil
    then show ?thesis by (simp add: blocks split: prod.splits)
  next
    case (Cons h hs')
    then have "hs' = []" using assms(1) by simp
    then show ?thesis using Cons by (simp add: blocks split: prod.splits)
  qed
qed

text \<open>
  The position read is not \<open>block_index mod len(residual_set)\<close> for a residual set of
  length \<open>3\<close>: with three pass-through blocks and the residuals \<open>[1, 10, 100]\<close> on a zero image stream, the forward
  pass returns \<open>1 + 10 + 1 = 12\<close>, where position \<open>block_index mod len(residual_set)\<close> gives
  \<open>1 + 10 + 100 = 111\<close>; and for the set \<open>[1]\<close> of length \<open>1\<close> the forward pass raises
  \<open>IndexError\<close> at the second block.
\<close>

theorem residual_index_counterexample:
  "snd (model_forward stub_torch (passing_model 3) 0 0 0 0 0 0 (Some [1, 10, 100]) None)
     = Inr 12
   \<and> fst (double_loop_spec (double_blocks (passing_model 3)) 0 [1, 10, 100] 0 0 0 0) = 111
   \<and> snd (model_forward stub_torch (passing_model 3) 0 0 0 0 0 0 (Some [1]) None)
     = Inl IndexError"
proof -
  have a: "snd (model_forward stub_torch (passing_model 3) 0 0 0 0 0 0 (Some [1, 10, 100]) None)
     = Inr 12"
    by (simp add: model_forward_def stub_torch_def passing_three_blocks)
       (simp add: passing_model_def)
  have b: "fst (double_loop_spec (double_blocks (passing_model 3)) 0 [1, 10, 100] 0 0 0 0) = 111"
    by (simp add: passing_three_blocks)
  have c: "snd (model_forward stub_torch (passing_model 3) 0 0 0 0 0 0 (Some [1]) None)
     = Inl IndexError"
    by (simp add: model_forward_def stub_torch_def passing_three_blocks)
       (simp add: passing_model_def)
  from a b c show ?thesis by blast
qed

text \<open>
  Claim C4, as amended. After the dual-stream block with index \<open>block_index\<close> the
  residual added to the image stream, and only to the image stream, is the one at position
  \<open>block_index mod 2\<close>. For a residual set of length \<open>2\<close> this is position
  \<open>block_index mod len(residual_set)\<close>: the loop of the code is the loop of the
  specification. For a longer set the residuals after the first two are never read: the
  loop of the code is that of the specification on the first two residuals. For a shorter
  set and two blocks or more the position does not exist and the loop raises
  \<open>IndexError\<close>.
\<close>

theorem residual_index_mod_two:
  "(length hs = 2 \<longrightarrow>
      double_loop blocks k (Some hs) vec pe img txt tr
        = (tr @ map DoubleBlock [k..<k + length blocks],
           Inr (double_loop_spec blocks k hs vec pe img txt)))
   \<and> (2 \<le> length hs \<longrightarrow>
      double_loop blocks k (Some hs) vec pe img txt tr
        = (tr @ map DoubleBlock [k..<k + length blocks],
           Inr (double_loop_spec blocks k (take 2 hs) vec pe img txt)))
   \<and> (length hs < 2 \<and> 2 \<le> length blocks \<longrightarrow>
      snd (double_loop blocks 0 (Some hs) vec pe img txt tr) = Inl IndexError)"
proof (intro conjI impI)
  assume l: "length hs = 2"
  then have "2 \<le> length hs" by simp
  then have "double_loop blocks k (Some hs) vec pe img txt tr
        = (tr @ map DoubleBlock [k..<k + length blocks],
           Inr (double_loop_spec blocks k (take 2 hs) vec pe img txt))"
    by (rule double_loop_two)
  moreover have "take 2 hs = hs" using l by simp
  ultimately show "double_loop blocks k (Some hs) vec pe img txt tr
        = (tr @ map DoubleBlock [k..<k + length blocks],
           Inr (double_loop_spec blocks k hs vec pe img txt))"
    by simp
next
  assume "2 \<le> length hs"
  then show "double_loop blocks k (Some hs) vec pe img txt tr
        = (tr @ map DoubleBlock [k..<k + length blocks],
           Inr (double_loop_spec blocks k (take 2 hs) vec pe img txt))"
    by (rule double_loop_two)
next
  assume "length hs < 2 \<and> 2 \<le> length blocks"
  then show "snd (double_loop blocks 0 (Some hs) vec pe img txt tr) = Inl IndexError"
    by (intro double_loop_short) simp_all
qed

theorem residual_index_mod_two_witness:
  "length [1, 10 :: real] = 2
   \<and> double_loop (double_blocks (passing_model 3)) 0 (Some [1, 10]) 0 0 0 0 []
       = ([DoubleBlock 0, DoubleBlock 1, DoubleBlock 2], Inr (12, 0))
   \<and> length [1 :: real] < 2 \<and> 2 \<le> length (double_blocks (passing_model 3))
   \<and> snd (double_loop (double_blocks (passing_model 3)) 0 (Some [1]) 0 0 0 0 [])
       = Inl IndexError"
proof -
  have l: "length [1, 10 :: real] = 2" by simp
  have s: "length [1 :: real] < 2 \<and> 2 \<le> length (double_blocks (passing_model 3))"
    by (simp add: passing_three_blocks)
  have spec: "double_loop_spec (double_blocks (passing_model 3)) 0 [1, 10] 0 0 0 0
                = (12 :: real, 0 :: real)"
    by (simp add: passing_three_blocks)
  have "[] @ map DoubleBlock [0..<0 + length (double_blocks (passing_model 3))]
          = [DoubleBlock 0, DoubleBlock 1, DoubleBlock 2]"
    by (simp add: passing_three_blocks upt_rec)
  with residual_index_mod_two
         [of "[1, 10]" "double_blocks (passing_model 3)" 0 0 0 0 0 "[]"] l spec
  have a: "double_loop (double_blocks (passing_model 3)) 0 (Some [1, 10]) 0 0 0 0 []
       = ([DoubleBlock 0, DoubleBlock 1, DoubleBlock 2], Inr (12, 0))"
    by simp
  from residual_index_mod_two
         [of "[1]" "double_blocks (passing_model 3)" 0 0 0 0 0 "[]"] s
  have b: "snd (double_loop (double_blocks (passing_model 3)) 0 (Some [1]) 0 0 0 0 [])
       = Inl IndexError"
    by blast
  from l a s b show ?thesis by blast
qed

section \<open>Properties of the schedule\<close>

lemma linspace_steps:
  assumes "1 \<le> n"
  shows "linspace 1 0 (n + 1) = Inr (map (\<lambda>i. Fin (1 - real i / real (nat n))) [0..<Suc (nat n)])"
proof -
  have "nat (n + 1) = Suc (nat n)" using assms by simp
  then show ?thesis using assms by (simp add: linspace_def)
qed

lemma get_schedule_plain:
  assumes "1 \<le> n"
  shows "get_schedule fl n L bs ms False
           = Inr (map (\<lambda>i. Fin (1 - real i / real (nat n))) [0..<Suc (nat n)])"
  using assms by (simp add: get_schedule_def linspace_steps)

lemma plain_decreasing:
  assumes "0 < N" "i < j" "j \<le> N"
  shows "1 - real j / real N < 1 - real i / real N"
  using assms by (simp add: divide_strict_right_mono)

lemma decreasing_map:
  assumes "\<And>i j. i < j \<Longrightarrow> j \<le> N \<Longrightarrow> f j < f i"
  shows "sorted_wrt (\<lambda>a b. xless b a) (map (\<lambda>i. Fin (f i)) [0..<Suc N])"
  unfolding sorted_wrt_iff_nth_less
proof (intro allI impI)
  fix i j
  assume "i < j" "j < length (map (\<lambda>i. Fin (f i)) [0..<Suc N])"
  then have j: "j \<le> N" and i: "i < Suc N" by simp_all
  have "map (\<lambda>i. Fin (f i)) [0..<Suc N] ! i = Fin (f i)" using i by (simp only: nth_map_upt) simp
  moreover have "map (\<lambda>i. Fin (f i)) [0..<Suc N] ! j = Fin (f j)" using j
    by (simp only: nth_map_upt) simp
  ultimately show "xless (map (\<lambda>i. Fin (f i)) [0..<Suc N] ! j) (map (\<lambda>i. Fin (f i)) [0..<Suc N] ! i)"
    using assms[OF \<open>i < j\<close> j] by simp
qed

lemma hd_map_upt: "hd (map f [0..<Suc N]) = f 0"
  by (simp add: upt_conv_Cons del: upt_Suc)

lemma last_map_upt: "last (map f [0..<Suc N]) = f N"
  by simp

text \<open>
  Claim C5. For every \<open>num_steps = n\<close> with \<open>n \<ge> 1\<close> and every \<open>image_seq_len\<close>,
  \<open>get_schedule\<close> with \<open>shift=False\<close> returns exactly \<open>n + 1\<close> values, strictly decreasing,
  the first \<open>1.0\<close> and the last \<open>0.0\<close>, and the result is the same for every
  \<open>image_seq_len\<close>.
\<close>

theorem get_schedule_unshifted:
  assumes "1 \<le> n"
  shows "\<exists>ts. get_schedule fl n L base_shift max_shift False = Inr ts
           \<and> length ts = nat n + 1
           \<and> sorted_wrt (\<lambda>a b. xless b a) ts
           \<and> hd ts = Fin 1 \<and> last ts = Fin 0
           \<and> get_schedule fl n L' base_shift max_shift False = Inr ts"
proof -
  let ?ts = "map (\<lambda>i. Fin (1 - real i / real (nat n))) [0..<Suc (nat n)]"
  have N: "0 < nat n" using assms by simp
  have a: "get_schedule fl n L base_shift max_shift False = Inr ?ts"
    using assms by (rule get_schedule_plain)
  have b: "get_schedule fl n L' base_shift max_shift False = Inr ?ts"
    using assms by (rule get_schedule_plain)
  have c: "length ?ts = nat n + 1" by simp
  have d: "sorted_wrt (\<lambda>a b. xless b a) ?ts"
    by (rule decreasing_map) (rule plain_decreasing [OF N])
  have e: "hd ?ts = Fin 1" by (simp only: hd_map_upt) simp
  have f: "last ?ts = Fin 0" using N by (simp only: last_map_upt) simp
  from a b c d e f show ?thesis by blast
qed

theorem get_schedule_unshifted_witness:
  "(1 :: int) \<le> 2
   \<and> (\<exists>ts. get_schedule overflow_floats 2 256 0.5 1.15 False = Inr ts \<and> length ts = 3
          \<and> sorted_wrt (\<lambda>a b. xless b a) ts \<and> hd ts = Fin 1 \<and> last ts = Fin 0
          \<and> get_schedule overflow_floats 2 4096 0.5 1.15 False = Inr ts)"
proof -
  have n: "(1 :: int) \<le> 2" by simp
  from get_schedule_unshifted [OF n, of overflow_floats 256 "0.5" "1.15" 4096] n
  show ?thesis by simp
qed

subsection \<open>The shifted schedule\<close>

lemma time_shift_error:
  "py_exp fl mu = Inl err \<Longrightarrow> time_shift fl mu sigma ts = Inl err"
  by (simp add: time_shift_def)

lemma time_shift_length:
  "time_shift fl mu sigma ts = Inr ys \<Longrightarrow> length ys = length ts"
  by (auto simp add: time_shift_def split: sum.splits)

lemma warp_at_zero:
  assumes "to_dtype fl e = Fin e'"
  shows "xdiv fl (to_dtype fl e)
           (xadd fl (to_dtype fl e) (xpow fl (xsub fl (xdiv fl (Fin 1) (Fin 0)) (Fin 1)) 1))
         = Fin 0"
  using assms by (simp add: xsub_def)

lemma xadd_PInf: "xadd fl PInf v = PInf \<or> xadd fl PInf v = NaN"
  by (cases v) simp_all

lemma warp_overflow:
  assumes "to_dtype fl e = PInf"
  shows "xdiv fl (to_dtype fl e) (xadd fl (to_dtype fl e) v) = NaN"
  using assms xadd_PInf [of fl v] by auto

lemma warp_at_zero_cases:
  "xdiv fl (to_dtype fl e)
     (xadd fl (to_dtype fl e) (xpow fl (xsub fl (xdiv fl (Fin 1) (Fin 0)) (Fin 1)) 1))
   = (case to_dtype fl e of Fin x \<Rightarrow> Fin 0 | _ \<Rightarrow> NaN)"
  by (cases "to_dtype fl e") (simp_all add: xsub_def)

lemma time_shift_last:
  assumes "py_exp fl mu = Inr e" "ts \<noteq> []" "last ts = Fin 0"
  shows "\<exists>ys. time_shift fl mu 1 ts = Inr ys \<and> length ys = length ts
            \<and> last ys = (case to_dtype fl e of Fin x \<Rightarrow> Fin 0 | _ \<Rightarrow> NaN)"
proof -
  let ?g = "\<lambda>t. xdiv fl (to_dtype fl e)
                 (xadd fl (to_dtype fl e) (xpow fl (xsub fl (xdiv fl (Fin 1) t) (Fin 1)) 1))"
  have a: "time_shift fl mu 1 ts = Inr (map ?g ts)"
    using assms(1) by (simp add: time_shift_def)
  have "last (map ?g ts) = ?g (last ts)" using assms(2) by (rule last_map)
  also have "\<dots> = ?g (Fin 0)" by (simp only: assms(3))
  also have "\<dots> = (case to_dtype fl e of Fin x \<Rightarrow> Fin 0 | _ \<Rightarrow> NaN)"
    by (rule warp_at_zero_cases)
  finally have b: "last (map ?g ts) = (case to_dtype fl e of Fin x \<Rightarrow> Fin 0 | _ \<Rightarrow> NaN)" .
  have c: "length (map ?g ts) = length ts" by simp
  from a b c show ?thesis by blast
qed

lemma time_shift_overflow:
  assumes "py_exp fl mu = Inr e" "to_dtype fl e = PInf"
  shows "time_shift fl mu sigma ts = Inr (replicate (length ts) NaN)"
proof -
  have "map (\<lambda>t. xdiv fl (to_dtype fl e)
                  (xadd fl (to_dtype fl e) (xpow fl (xsub fl (xdiv fl (Fin 1) t) (Fin 1)) sigma))) ts
        = map (\<lambda>t. NaN) ts"
    by (rule map_cong [OF refl]) (rule warp_overflow [OF assms(2)])
  then show ?thesis using assms(1) by (simp add: time_shift_def map_replicate_const)
qed

lemma get_schedule_shifted_run:
  assumes "1 \<le> n" "get_lin_function 256 bs 4096 ms = Inr f"
  shows "get_schedule fl n L bs ms True
           = time_shift fl (f (real_of_int L)) 1
               (map (\<lambda>i. Fin (1 - real i / real (nat n))) [0..<Suc (nat n)])"
  using assms by (simp add: get_schedule_def linspace_steps)

lemma default_lin_function:
  "get_lin_function 256 bs 4096 ms
     = Inr (\<lambda>x. (ms - bs) / (4096 - 256) * x + (bs - (ms - bs) / (4096 - 256) * 256))"
  by (simp add: get_lin_function_def Let_def)

lemma exp_102: "34028235677973366 * 10 ^ 22 < exp (102 :: real)"
proof -
  have "(5 / 2 :: real) \<le> exp 1" using exp_lower_Taylor_quadratic [of "1 :: real"] by simp
  then have "(5 / 2 :: real) ^ 102 \<le> exp 1 ^ 102" by (rule power_mono) simp
  also have "exp 1 ^ 102 = exp (102 :: real)" using exp_of_nat_mult [of 102 "1 :: real"] by simp
  finally have a: "(5 / 2 :: real) ^ 102 \<le> exp 102" .
  have b: "34028235677973366 * 10 ^ 22 < (5 / 2 :: real) ^ 102" by (simp add: power_divide)
  from a b show ?thesis by linarith
qed

lemma exp_small:
  assumes "x \<le> (2 :: real)"
  shows "exp x \<le> 9"
proof -
  have "exp x \<le> exp 2" using assms by simp
  also have "exp (2 :: real) = exp 1 ^ 2" using exp_of_nat_mult [of 2 "1 :: real"] by simp
  also have "\<dots> \<le> 3 ^ 2" by (rule power_mono) (simp_all add: exp_le)
  finally show ?thesis by simp
qed

lemma single_range_exp_large:
  assumes "102 \<le> x"
  shows "single_range (exp x) = PInf"
proof -
  have "exp 102 \<le> exp x" using assms by simp
  with exp_102 have "34028235677973366 * 10 ^ 22 < exp x" by (rule less_le_trans)
  then show ?thesis unfolding single_range_def by (simp only: if_True)
qed

lemma single_range_exp_small:
  assumes "x \<le> 2"
  shows "single_range (exp x) = Fin (exp x)"
proof -
  have a: "exp x \<le> 9" using assms by (rule exp_small)
  have c: "\<not> exp x > 34028235677973366 * 10 ^ 22" using a by simp
  have "- (34028235677973366 * 10 ^ 22) \<le> (0 :: real)" by simp
  also have "0 \<le> exp x" by simp
  finally have d: "\<not> exp x < - (34028235677973366 * 10 ^ 22)" by (simp only: not_less)
  from c d show ?thesis unfolding single_range_def by (simp only: if_False)
qed

lemma overflow_floats_exp:
  "x \<le> 709 \<Longrightarrow> py_exp overflow_floats x = Inr (exp x)"
  by (simp add: overflow_floats_def)

lemma overflow_floats_raise:
  "710 \<le> x \<Longrightarrow> py_exp overflow_floats x = Inl OverflowError"
  by (simp add: overflow_floats_def)

lemma overflow_floats_dtype: "to_dtype overflow_floats = single_range"
  by (simp add: overflow_floats_def)




text \<open>
  The last element is not \<open>0.0\<close> for every \<open>mu\<close>: \<open>get_schedule(2, 0, 1000, 1000)\<close>, where \<open>mu\<close> is
  \<open>1000\<close>, raises \<open>OverflowError\<close> from \<open>math.exp\<close> and has no last element; and with the
  default shifts and \<open>image_seq_len = 600000\<close> the last element is NaN, not \<open>0.0\<close>.
\<close>

theorem shifted_schedule_last_counterexample:
  "get_schedule overflow_floats 2 0 1000 1000 True = Inl OverflowError
   \<and> get_schedule overflow_floats 2 600000 0.5 1.15 True = Inr [NaN, NaN, NaN]
   \<and> last [NaN, NaN, NaN] \<noteq> Fin 0"
proof -
  let ?ts = "map (\<lambda>i. Fin (1 - real i / real (nat 2))) [0..<Suc (nat 2)]"
  let ?nu = "(1000 - 1000) / (4096 - 256) * real_of_int 0
               + (1000 - (1000 - 1000) / (4096 - 256) * 256) :: real"
  have "py_exp overflow_floats ?nu = Inl OverflowError" by (rule overflow_floats_raise) simp
  then have "time_shift overflow_floats ?nu 1 ?ts = Inl OverflowError" by (rule time_shift_error)
  moreover have "get_schedule overflow_floats 2 0 1000 1000 True
          = time_shift overflow_floats ?nu 1 ?ts"
    by (rule get_schedule_shifted_run [OF _ default_lin_function]) simp
  ultimately have a: "get_schedule overflow_floats 2 0 1000 1000 True = Inl OverflowError"
    by (simp only:)
  let ?mu = "(1.15 - 0.5) / (4096 - 256) * real_of_int 600000
               + (0.5 - (1.15 - 0.5) / (4096 - 256) * 256) :: real"
  have lo: "102 \<le> ?mu" by simp
  have hi: "?mu \<le> 709" by simp
  have e: "py_exp overflow_floats ?mu = Inr (exp ?mu)" using hi by (rule overflow_floats_exp)
  have d: "to_dtype overflow_floats (exp ?mu) = PInf"
    unfolding overflow_floats_dtype using lo by (rule single_range_exp_large)
  have "get_schedule overflow_floats 2 600000 0.5 1.15 True
          = time_shift overflow_floats ?mu 1 ?ts"
    by (rule get_schedule_shifted_run [OF _ default_lin_function]) simp
  also have "\<dots> = Inr (replicate (length ?ts) NaN)"
    using e d by (rule time_shift_overflow)
  also have "\<dots> = Inr [NaN, NaN, NaN]" by (simp add: numeral_3_eq_3)
  finally have b: "get_schedule overflow_floats 2 600000 0.5 1.15 True = Inr [NaN, NaN, NaN]" .
  from a b show ?thesis by simp
qed

text \<open>
  Claim C9, as amended. For every \<open>n \<ge> 1\<close> and every \<open>mu\<close> for which \<open>math.exp(mu)\<close>
  returns a value that is finite in the tensor's dtype, the last element of the shifted
  schedule is exactly \<open>0.0\<close>: at \<open>t = 0\<close> the term \<open>1/t - 1\<close> is \<open>+inf\<close> and the warp is
  \<open>e / (e + inf) = 0.0\<close>. When the value of \<open>math.exp(mu)\<close> is an infinity in the tensor's
  dtype, the last element is NaN, from \<open>inf / (inf + inf)\<close>. When \<open>math.exp(mu)\<close> raises,
  there is no list.
\<close>

theorem shifted_schedule_last:
  assumes "1 \<le> n" and "get_lin_function 256 base_shift 4096 max_shift = Inr f"
  shows "(\<forall>e e'. py_exp fl (f (real_of_int L)) = Inr e \<and> to_dtype fl e = Fin e' \<longrightarrow>
            (\<exists>ts. get_schedule fl n L base_shift max_shift True = Inr ts \<and> last ts = Fin 0))
       \<and> (\<forall>e. py_exp fl (f (real_of_int L)) = Inr e \<and> to_dtype fl e = PInf \<longrightarrow>
            (\<exists>ts. get_schedule fl n L base_shift max_shift True = Inr ts \<and> last ts = NaN))
       \<and> (\<forall>err. py_exp fl (f (real_of_int L)) = Inl err \<longrightarrow>
            get_schedule fl n L base_shift max_shift True = Inl err)
       \<and> xsub fl (xdiv fl (Fin 1) (Fin 0)) (Fin 1) = PInf
       \<and> xdiv fl (Fin x) (xadd fl (Fin x) PInf) = Fin 0
       \<and> xdiv fl PInf (xadd fl PInf PInf) = NaN"
proof (intro conjI allI impI)
  let ?ts = "map (\<lambda>i. Fin (1 - real i / real (nat n))) [0..<Suc (nat n)]"
  have run: "get_schedule fl n L base_shift max_shift True
               = time_shift fl (f (real_of_int L)) 1 ?ts"
    using assms by (rule get_schedule_shifted_run)
  have N: "0 < nat n" using assms(1) by simp
  have ne: "?ts \<noteq> []" by simp
  have l0: "last ?ts = Fin 0" using N by (simp only: last_map_upt) simp
  {
    fix e e'
    assume a: "py_exp fl (f (real_of_int L)) = Inr e \<and> to_dtype fl e = Fin e'"
    then have e: "py_exp fl (f (real_of_int L)) = Inr e" by simp
    obtain ys where ys: "time_shift fl (f (real_of_int L)) 1 ?ts = Inr ys"
        "last ys = (case to_dtype fl e of Fin x \<Rightarrow> Fin 0 | _ \<Rightarrow> NaN)"
      using time_shift_last [OF e ne l0] by blast
    have "last ys = Fin 0" using ys(2) a by simp
    with ys(1) run
    show "\<exists>ts. get_schedule fl n L base_shift max_shift True = Inr ts \<and> last ts = Fin 0"
      by simp
  }
  {
    fix e
    assume a: "py_exp fl (f (real_of_int L)) = Inr e \<and> to_dtype fl e = PInf"
    then have e: "py_exp fl (f (real_of_int L)) = Inr e" by simp
    obtain ys where ys: "time_shift fl (f (real_of_int L)) 1 ?ts = Inr ys"
        "last ys = (case to_dtype fl e of Fin x \<Rightarrow> Fin 0 | _ \<Rightarrow> NaN)"
      using time_shift_last [OF e ne l0] by blast
    have "last ys = NaN" using ys(2) a by simp
    with ys(1) run
    show "\<exists>ts. get_schedule fl n L base_shift max_shift True = Inr ts \<and> last ts = NaN"
      by simp
  }
  {
    fix err
    assume "py_exp fl (f (real_of_int L)) = Inl err"
    then have "time_shift fl (f (real_of_int L)) 1 ?ts = Inl err" by (rule time_shift_error)
    with run show "get_schedule fl n L base_shift max_shift True = Inl err" by simp
  }
  show "xsub fl (xdiv fl (Fin 1) (Fin 0)) (Fin 1) = PInf" by (simp add: xsub_def)
  show "xdiv fl (Fin x) (xadd fl (Fin x) PInf) = Fin 0" by simp
  show "xdiv fl PInf (xadd fl PInf PInf) = NaN" by simp
qed

theorem shifted_schedule_last_witness:
  "(1 :: int) \<le> 2
   \<and> get_lin_function 256 0.5 4096 1.15
       = Inr (\<lambda>x. (1.15 - 0.5) / (4096 - 256) * x + (0.5 - (1.15 - 0.5) / (4096 - 256) * 256))
   \<and> py_exp overflow_floats 1.15 = Inr (exp 1.15)
   \<and> to_dtype overflow_floats (exp 1.15) = Fin (exp 1.15)
   \<and> (\<exists>ts. get_schedule overflow_floats 2 4096 0.5 1.15 True = Inr ts \<and> last ts = Fin 0)"
proof -
  have n: "(1 :: int) \<le> 2" by simp
  have g: "get_lin_function 256 0.5 4096 1.15
       = Inr (\<lambda>x. (1.15 - 0.5) / (4096 - 256) * x + (0.5 - (1.15 - 0.5) / (4096 - 256) * 256))"
    by (rule default_lin_function)
  have e: "py_exp overflow_floats 1.15 = Inr (exp 1.15)" by (rule overflow_floats_exp) simp
  have d: "to_dtype overflow_floats (exp 1.15) = Fin (exp 1.15)"
    unfolding overflow_floats_dtype by (rule single_range_exp_small) simp
  from shifted_schedule_last [OF n g, of overflow_floats 4096] e d
  have "\<exists>ts. get_schedule overflow_floats 2 4096 0.5 1.15 True = Inr ts \<and> last ts = Fin 0"
    by simp
  with n g e d show ?thesis by simp
qed

section \<open>Position ids\<close>

lemma concat_replicate_nth:
  "m < length xs \<Longrightarrow> b < n \<Longrightarrow> concat (replicate n xs) ! (b * length xs + m) = xs ! m"
proof (induction n arbitrary: b)
  case 0
  then show ?case by simp
next
  case (Suc n)
  show ?case
  proof (cases b)
    case 0
    then show ?thesis using Suc.prems by (simp add: nth_append)
  next
    case (Suc b')
    then have "b' < n" using Suc.prems by simp
    then have "concat (replicate n xs) ! (b' * length xs + m) = xs ! m"
      using Suc.IH Suc.prems(1) by blast
    moreover have "Suc b' * length xs + m = length xs + (b' * length xs + m)" by simp
    ultimately show ?thesis using Suc by (simp add: nth_append)
  qed
qed

lemma length_concat_replicate: "length (concat (replicate n xs)) = n * length xs"
  by (induction n) simp_all

lemma grid_ids_length:
  "length (data (add_cols h w (add_rows h w (zeros [h, w, 3])))) = h * w * 3"
  by (simp add: add_cols_def)

lemma div_bound:
  fixes k :: nat
  assumes "k < h * w * 3"
  shows "k div 3 div w < h" "0 < w"
proof -
  have w: "0 < w" using assms by (cases w) simp_all
  have "k div 3 < h * w" using assms by (simp add: less_mult_imp_div_less)
  then have "k div 3 < w * h" by (simp add: mult.commute)
  then show "k div 3 div w < h" using w by (simp add: less_mult_imp_div_less mult.commute)
  show "0 < w" by (rule w)
qed

lemma grid_ids_nth:
  assumes "k < h * w * 3"
  shows "data (add_cols h w (add_rows h w (zeros [h, w, 3]))) ! k
           = (if k mod 3 = 1 then real (k div 3 div w)
              else if k mod 3 = 2 then real (k div 3 mod w) else 0)"
proof -
  have r: "k div 3 div w < h" and w: "0 < w" using div_bound[OF assms] by simp_all
  have c: "k div 3 mod w < w" using w by simp
  have rows: "data (add_rows h w (zeros [h, w, 3])) ! k
                = (if k mod 3 = 1 then real (k div 3 div w) else 0)"
    using assms r by (simp add: add_rows_def zeros_def arange_def)
  show ?thesis
    using assms c rows by (simp add: add_cols_def arange_def)
qed

lemma mod_mult_add: "x < n \<Longrightarrow> (a * n + x) mod n = (x :: nat)"
  by simp

lemma div_mult_add: "x < n \<Longrightarrow> (a * n + x) div n = (a :: nat)"
  by simp

lemma token_decode:
  fixes i j c w :: nat
  assumes "j < w" "c < 3"
  shows "((i * w + j) * 3 + c) mod 3 = c" "((i * w + j) * 3 + c) div 3 = i * w + j"
        "(i * w + j) div w = i" "(i * w + j) mod w = j"
proof -
  show "((i * w + j) * 3 + c) mod 3 = c" using assms(2) by (rule mod_mult_add)
  show "((i * w + j) * 3 + c) div 3 = i * w + j" using assms(2) by (rule div_mult_add)
  show "(i * w + j) div w = i" using assms(1) by (rule div_mult_add)
  show "(i * w + j) mod w = j" using assms(1) by (rule mod_mult_add)
qed

lemma make_img_ids_eq:
  "make_img_ids b H W
     = Inr (Tensor [b, (H div 2) * (W div 2), 3]
              (concat (replicate b
                 (data (add_cols (H div 2) (W div 2)
                    (add_rows (H div 2) (W div 2) (zeros [H div 2, W div 2, 3])))))))"
  by (simp add: make_img_ids_def repeat_hw_def add_cols_def add_rows_def zeros_def)

lemma img_ids_nth:
  assumes "b' < b" "i < h" "j < w" "c < 3"
  shows "concat (replicate b (data (add_cols h w (add_rows h w (zeros [h, w, 3])))))
           ! ((b' * (h * w) + (i * w + j)) * 3 + c)
         = (if c = 1 then real i else if c = 2 then real j else 0)"
proof -
  let ?G = "data (add_cols h w (add_rows h w (zeros [h, w, 3])))"
  let ?m = "(i * w + j) * 3 + c"
  have "i * w + j < i * w + w" using assms(3) by simp
  also have "\<dots> = Suc i * w" by simp
  also have "\<dots> \<le> h * w" using assms(2) by (intro mult_le_mono1) simp
  finally have t: "i * w + j < h * w" .
  then have "(i * w + j) * 3 + c < (i * w + j) * 3 + 3" using assms(4) by simp
  also have "\<dots> = Suc (i * w + j) * 3" by simp
  also have "\<dots> \<le> (h * w) * 3" using t by (intro mult_le_mono1) simp
  finally have m: "?m < h * w * 3" .
  then have m': "?m < length ?G" by (simp only: grid_ids_length)
  have idx: "(b' * (h * w) + (i * w + j)) * 3 + c = b' * length ?G + ?m"
    by (simp only: grid_ids_length) (simp add: algebra_simps)
  have "concat (replicate b ?G) ! (b' * length ?G + ?m) = ?G ! ?m"
    using m' assms(1) by (rule concat_replicate_nth)
  also have "\<dots> = (if ?m mod 3 = 1 then real (?m div 3 div w)
                    else if ?m mod 3 = 2 then real (?m div 3 mod w) else 0)"
    using m by (rule grid_ids_nth)
  also have "\<dots> = (if c = 1 then real i else if c = 2 then real j else 0)"
    by (simp only: token_decode [OF assms(3) assms(4)])
  finally show ?thesis by (simp only: idx)
qed

lemma prepare_img_ids:
  assumes "prepare txt_t5 vec_clip img = Inr p" "shape img = [b, c, H, W]"
  shows "make_img_ids b H W = Inr (p_img_ids p)"
  using assms by (auto simp: prepare_def split: sum.splits)

text \<open>
  Claim C8. For a latent of batch size \<open>b\<close>, height \<open>H\<close> and width \<open>W\<close>, so for the token
  grid of \<open>h = H div 2\<close> rows and \<open>w = W div 2\<close> columns, the position ids that \<open>prepare\<close>
  builds form a tensor of shape \<open>(b, h*w, 3)\<close> whose entry at token \<open>i*w + j\<close> is
  \<open>(0, i, j)\<close> in every batch element: channel 0 is zero, channel 1 the row, channel 2 the
  column. For \<open>h = 2\<close>, \<open>w = 3\<close>, \<open>b = 1\<close> the token at index 4 has the ids \<open>[0, 1, 1]\<close>.
\<close>

theorem img_ids_entries:
  assumes "b' < b" "i < H div 2" "j < W div 2"
  shows "\<exists>ids. make_img_ids b H W = Inr ids
           \<and> shape ids = [b, (H div 2) * (W div 2), 3] \<and> wf_tensor ids
           \<and> tget ids [b', i * (W div 2) + j, 0] = 0
           \<and> tget ids [b', i * (W div 2) + j, 1] = real i
           \<and> tget ids [b', i * (W div 2) + j, 2] = real j
           \<and> (\<forall>txt_t5 vec_clip img c p.
                 shape img = [b, c, H, W] \<and> prepare txt_t5 vec_clip img = Inr p
                 \<longrightarrow> p_img_ids p = ids)"
proof -
  let ?h = "H div 2" and ?w = "W div 2"
  let ?G = "data (add_cols ?h ?w (add_rows ?h ?w (zeros [?h, ?w, 3])))"
  let ?ids = "Tensor [b, ?h * ?w, 3] (concat (replicate b ?G))"
  have a: "make_img_ids b H W = Inr ?ids" by (rule make_img_ids_eq)
  have s: "shape ?ids = [b, ?h * ?w, 3]" by simp
  have w: "wf_tensor ?ids"
    by (simp add: wf_tensor_def length_concat_replicate grid_ids_length)
  have e: "tget ?ids [b', i * ?w + j, c]
             = (if c = 1 then real i else if c = 2 then real j else 0)" if "c < 3" for c
    using img_ids_nth [OF assms that] by (simp add: tget_def)
  have e0: "tget ?ids [b', i * ?w + j, 0] = 0" using e [of 0] by simp
  have e1: "tget ?ids [b', i * ?w + j, 1] = real i" using e [of 1] by simp
  have e2: "tget ?ids [b', i * ?w + j, 2] = real j" using e [of 2] by simp
  have p: "\<forall>txt_t5 vec_clip img c p.
             shape img = [b, c, H, W] \<and> prepare txt_t5 vec_clip img = Inr p
             \<longrightarrow> p_img_ids p = ?ids"
    using prepare_img_ids a by fastforce
  from a s w e0 e1 e2 p show ?thesis by blast
qed

theorem img_ids_entries_witness:
  "(0 :: nat) < 1 \<and> (1 :: nat) < 4 div 2 \<and> (1 :: nat) < 6 div 2
   \<and> (\<exists>ids. make_img_ids 1 4 6 = Inr ids \<and> shape ids = [1, 6, 3]
          \<and> tget ids [0, 4, 0] = 0 \<and> tget ids [0, 4, 1] = 1 \<and> tget ids [0, 4, 2] = 1)"
proof -
  have b: "(0 :: nat) < 1" and i: "(1 :: nat) < 4 div 2" and j: "(1 :: nat) < 6 div 2"
    by simp_all
  from img_ids_entries [OF b i j] obtain ids where
    "make_img_ids 1 4 6 = Inr ids" "shape ids = [1, 4 div 2 * (6 div 2), 3]"
    "tget ids [0, 1 * (6 div 2) + 1, 0] = 0" "tget ids [0, 1 * (6 div 2) + 1, 1] = real 1"
    "tget ids [0, 1 * (6 div 2) + 1, 2] = real 1"
    by blast
  then have "make_img_ids 1 4 6 = Inr ids \<and> shape ids = [1, 6, 3]
          \<and> tget ids [0, 4, 0] = 0 \<and> tget ids [0, 4, 1] = 1 \<and> tget ids [0, 4, 2] = 1"
    by simp
  with b i j show ?thesis by blast
qed

section \<open>Packing and unpacking\<close>

lemma radix_bound:
  fixes a x m n :: nat
  assumes "a < m" "x < n"
  shows "a * n + x < m * n"
proof -
  have "a * n + x < a * n + n" using assms(2) by simp
  also have "\<dots> = Suc a * n" by simp
  also have "\<dots> \<le> m * n" using assms(1) by (intro mult_le_mono1) simp
  finally show ?thesis .
qed

lemma div_less_of_mult:
  fixes k m n :: nat
  assumes "k < m * n"
  shows "k div n < m"
  using assms by (simp add: less_mult_imp_div_less)

lemma half_bound:
  fixes r h :: nat
  assumes "r < h * 2"
  shows "r div 2 < h"
  using assms by simp

lemma pack_unpack_index:
  assumes "k < b * c * (h * 2) * (w * 2)"
  shows "unpack_src c h w k < b * (h * w) * (c * 4)"
    and "pack_src c h w (unpack_src c h w k) = k"
proof -
  define s where "s = k mod (w * 2)"
  define q1 where "q1 = k div (w * 2)"
  define r where "r = q1 mod (h * 2)"
  define q where "q = q1 div (h * 2)"
  define ch where "ch = q mod c"
  define bb where "bb = q div c"
  define t where "t = (r div 2) * w + s div 2"
  define f where "f = (ch * 2 + r mod 2) * 2 + s mod 2"
  have pos: "0 < w" "0 < h" "0 < c"
    using assms by (cases w; cases h; cases c; simp)+
  have k: "k = q1 * (w * 2) + s" unfolding q1_def s_def by (rule div_mult_mod_eq [symmetric])
  have q1: "q1 = q * (h * 2) + r" unfolding q_def r_def by (rule div_mult_mod_eq [symmetric])
  have qq: "q = bb * c + ch" unfolding bb_def ch_def by (rule div_mult_mod_eq [symmetric])
  have s_lt: "s < w * 2" using pos by (simp add: s_def)
  have r_lt: "r < h * 2" using pos by (simp add: r_def)
  have ch_lt: "ch < c" using pos by (simp add: ch_def)
  have "q1 < b * c * (h * 2)" unfolding q1_def using assms by (rule div_less_of_mult)
  then have "q < b * c" unfolding q_def by (rule div_less_of_mult)
  then have bb_lt: "bb < b" unfolding bb_def by (rule div_less_of_mult)
  have s2: "s div 2 < w" using s_lt by (rule half_bound)
  have r2: "r div 2 < h" using r_lt by (rule half_bound)
  have t_lt: "t < h * w" unfolding t_def using r2 s2 by (rule radix_bound)
  have pw_lt: "s mod 2 < 2" and ph_lt: "r mod 2 < 2" by simp_all
  have g_lt: "ch * 2 + r mod 2 < c * 2" using ch_lt ph_lt by (rule radix_bound)
  have "f < (c * 2) * 2" unfolding f_def using g_lt pw_lt by (rule radix_bound)
  then have f_lt: "f < c * 4" by simp
  have u: "unpack_src c h w k = (bb * (h * w) + t) * (c * 4) + f"
    by (simp add: unpack_src_def Let_def s_def q1_def r_def q_def ch_def bb_def t_def f_def)
  have bt_lt: "bb * (h * w) + t < b * (h * w)" using bb_lt t_lt by (rule radix_bound)
  show "unpack_src c h w k < b * (h * w) * (c * 4)"
    unfolding u using bt_lt f_lt by (rule radix_bound)
  have f_mod: "((bb * (h * w) + t) * (c * 4) + f) mod (c * 4) = f"
    using f_lt by (rule mod_mult_add)
  have f_div: "((bb * (h * w) + t) * (c * 4) + f) div (c * 4) = bb * (h * w) + t"
    using f_lt by (rule div_mult_add)
  have t_mod: "(bb * (h * w) + t) mod (h * w) = t" using t_lt by (rule mod_mult_add)
  have b_div: "(bb * (h * w) + t) div (h * w) = bb" using t_lt by (rule div_mult_add)
  have pw: "f mod 2 = s mod 2" unfolding f_def using pw_lt by (rule mod_mult_add)
  have g: "f div 2 = ch * 2 + r mod 2" unfolding f_def using pw_lt by (rule div_mult_add)
  have ph: "(ch * 2 + r mod 2) mod 2 = r mod 2" using ph_lt by (rule mod_mult_add)
  have c': "(ch * 2 + r mod 2) div 2 = ch" using ph_lt by (rule div_mult_add)
  have j: "t mod w = s div 2" unfolding t_def using s2 by (rule mod_mult_add)
  have i: "t div w = r div 2" unfolding t_def using s2 by (rule div_mult_add)
  have p: "pack_src c h w ((bb * (h * w) + t) * (c * 4) + f)
             = ((bb * c + ch) * (h * 2) + (r div 2 * 2 + r mod 2)) * (w * 2)
               + (s div 2 * 2 + s mod 2)"
    unfolding pack_src_def Let_def f_mod f_div t_mod b_div pw g ph c' j i ..
  have "r div 2 * 2 + r mod 2 = r" "s div 2 * 2 + s mod 2 = s" by simp_all
  then have "pack_src c h w ((bb * (h * w) + t) * (c * 4) + f)
               = ((bb * c + ch) * (h * 2) + r) * (w * 2) + s"
    using p by simp
  also have "\<dots> = k" by (simp only: qq [symmetric] q1 [symmetric] k [symmetric])
  finally show "pack_src c h w (unpack_src c h w k) = k" by (simp only: u)
qed

lemma pack_eq:
  assumes "shape x = [b, c, h * 2, w * 2]"
  shows "pack x = Inr (Tensor [b, h * w, c * 4]
                         (map (\<lambda>k. data x ! pack_src c h w k) [0..<b * (h * w) * (c * 4)]))"
  using assms by (simp add: pack_def)

lemma unpack_eq:
  assumes "shape y = [b, h * w, c * 4]" "ceil16 height = int h" "ceil16 width = int w"
  shows "unpack y height width
           = Inr (Tensor [b, c, h * 2, w * 2]
                    (map (\<lambda>k. data y ! unpack_src c h w k) [0..<b * c * (h * 2) * (w * 2)]))"
  using assms by (simp add: unpack_def)

lemma roundtrip_data:
  assumes "length xs = b * c * (h * 2) * (w * 2)"
  shows "map (\<lambda>k. map (\<lambda>k. xs ! pack_src c h w k) [0..<b * (h * w) * (c * 4)]
                     ! unpack_src c h w k) [0..<b * c * (h * 2) * (w * 2)] = xs"
proof (rule nth_equalityI)
  show "length (map (\<lambda>k. map (\<lambda>k. xs ! pack_src c h w k) [0..<b * (h * w) * (c * 4)]
                     ! unpack_src c h w k) [0..<b * c * (h * 2) * (w * 2)]) = length xs"
    using assms by simp
next
  fix k
  assume "k < length (map (\<lambda>k. map (\<lambda>k. xs ! pack_src c h w k) [0..<b * (h * w) * (c * 4)]
                     ! unpack_src c h w k) [0..<b * c * (h * 2) * (w * 2)])"
  then have k: "k < b * c * (h * 2) * (w * 2)" by simp
  have u: "unpack_src c h w k < b * (h * w) * (c * 4)"
    and p: "pack_src c h w (unpack_src c h w k) = k"
    using pack_unpack_index [OF k] by simp_all
  have "map (\<lambda>k. map (\<lambda>k. xs ! pack_src c h w k) [0..<b * (h * w) * (c * 4)]
                     ! unpack_src c h w k) [0..<b * c * (h * 2) * (w * 2)] ! k
        = map (\<lambda>k. xs ! pack_src c h w k) [0..<b * (h * w) * (c * 4)] ! unpack_src c h w k"
    using k by (simp only: nth_map_upt) simp
  also have "\<dots> = xs ! pack_src c h w (unpack_src c h w k)"
    using u by (simp only: nth_map_upt) simp
  also have "\<dots> = xs ! k" by (simp only: p)
  finally show "map (\<lambda>k. map (\<lambda>k. xs ! pack_src c h w k) [0..<b * (h * w) * (c * 4)]
                     ! unpack_src c h w k) [0..<b * c * (h * 2) * (w * 2)] ! k = xs ! k" .
qed

lemma prepare_img:
  assumes "prepare txt_t5 vec_clip x = Inr p" "pack x = Inr y"
  shows "p_img p = y"
proof -
  obtain bs c h w where s: "shape x = [bs, c, h, w]"
    using assms(2) by (auto simp: pack_def split: list.splits)
  have y: "shape y = [bs, (h div 2) * (w div 2), c * 4]"
    using assms(2) s by (auto simp: pack_def Let_def split: if_splits)
  have "broadcast_batch bs y = Inr y"
    using y by (auto simp: broadcast_batch_def shape_at_def)
  then show ?thesis
    using assms s by (auto simp: prepare_def split: sum.splits)
qed

lemma pack_example:
  "pack (Tensor [1, 2, 2, 4] [0, 1, 2, 3, 4, 5, 6, 7, 8, 9, 10, 11, 12, 13, 14, 15 :: real])
     = Inr (Tensor [1, 2, 8] [0, 1, 4, 5, 8, 9, 12, 13, 2, 3, 6, 7, 10, 11, 14, 15])"
  by (simp add: pack_def pack_src_def Let_def upt_rec [of _ "numeral _"] nat_mult_distrib)

text \<open>
  Claim C2. For every well-formed tensor \<open>x\<close> of shape \<open>(B, C, H, W)\<close> with
  \<open>H = 2*ceil(height/16)\<close> and \<open>W = 2*ceil(width/16)\<close>, packing succeeds and unpacking the
  packed sequence with the original \<open>height\<close> and \<open>width\<close> returns \<open>x\<close> itself; the packed
  sequence is the \<open>img\<close> that \<open>prepare\<close> returns.
\<close>

theorem unpack_pack_roundtrip:
  fixes x :: "real tensor"
  assumes "wf_tensor x" "shape x = [b, c, H, W]"
    and "int H = 2 * ceil16 height" "int W = 2 * ceil16 width"
  shows "\<exists>y. pack x = Inr y \<and> unpack y height width = Inr x
           \<and> (\<forall>txt_t5 vec_clip p. prepare txt_t5 vec_clip x = Inr p \<longrightarrow> p_img p = y)"
proof -
  define h where "h = nat (ceil16 height)"
  define w where "w = nat (ceil16 width)"
  have ch: "ceil16 height = int h" and cw: "ceil16 width = int w"
    using assms(3,4) by (simp_all add: h_def w_def)
  have H: "H = h * 2" and W: "W = w * 2"
    using assms(3,4) ch cw by simp_all
  have sx: "shape x = [b, c, h * 2, w * 2]"
    using assms(2) H W by simp
  let ?y = "Tensor [b, h * w, c * 4]
              (map (\<lambda>k. data x ! pack_src c h w k) [0..<b * (h * w) * (c * 4)])"
  have p: "pack x = Inr ?y" using sx by (rule pack_eq)
  have sy: "shape ?y = [b, h * w, c * 4]" by simp
  have len: "length (data x) = b * c * (h * 2) * (w * 2)"
    using assms(1) sx by (simp add: wf_tensor_def)
  have "unpack ?y height width
          = Inr (Tensor [b, c, h * 2, w * 2]
                   (map (\<lambda>k. data ?y ! unpack_src c h w k) [0..<b * c * (h * 2) * (w * 2)]))"
    using sy ch cw by (rule unpack_eq)
  also have "\<dots> = Inr (Tensor [b, c, h * 2, w * 2] (data x))"
    using roundtrip_data [OF len] by simp
  also have "\<dots> = Inr x"
    using sx by (cases x) simp
  finally have u: "unpack ?y height width = Inr x" .
  have q: "\<forall>txt_t5 vec_clip p. prepare txt_t5 vec_clip x = Inr p \<longrightarrow> p_img p = ?y"
    using prepare_img p by blast
  from p u q show ?thesis by blast
qed

theorem unpack_pack_roundtrip_witness:
  "wf_tensor (Tensor [1, 2, 2, 4] [0, 1, 2, 3, 4, 5, 6, 7, 8, 9, 10, 11, 12, 13, 14, 15 :: real])
   \<and> int 2 = 2 * ceil16 16 \<and> int 4 = 2 * ceil16 32
   \<and> (\<exists>y. pack (Tensor [1, 2, 2, 4] [0, 1, 2, 3, 4, 5, 6, 7, 8, 9, 10, 11, 12, 13, 14, 15 :: real])
              = Inr y
          \<and> unpack y 16 32
              = Inr (Tensor [1, 2, 2, 4] [0, 1, 2, 3, 4, 5, 6, 7, 8, 9, 10, 11, 12, 13, 14, 15]))"
proof -
  let ?x = "Tensor [1, 2, 2, 4] [0, 1, 2, 3, 4, 5, 6, 7, 8, 9, 10, 11, 12, 13, 14, 15 :: real]"
  have wf: "wf_tensor ?x" by (simp add: wf_tensor_def)
  have sh: "shape ?x = [1, 2, 2, 4]" by simp
  have hh: "int 2 = 2 * ceil16 16" and ww: "int 4 = 2 * ceil16 32"
    by (simp_all add: ceil16_def)
  from unpack_pack_roundtrip [OF wf sh hh ww] have
    "\<exists>y. pack ?x = Inr y \<and> unpack y 16 32 = Inr ?x"
    by blast
  with wf hh ww show ?thesis by blast
qed

end
